theory Spec2Isabelle
  imports Complex_Main "HOL-Library.Word"
begin

section \<open>The node graph editor of restart.py\<close>

text \<open>
  The program is a PySide (Qt 4) application. Its objects (Knob, Edge, Header, Node) live
  on the Python heap and refer to each other, so the model keeps one store: every object
  is named by a number, and the store maps the number to the object's attributes. Python's
  \<open>is\<close> is equality of the numbers. The module-level variable \<open>CURRENT_ZOOM\<close>, the
  scaling of the one GridView, the one QGraphicsScene and the \<open>temp\<close> dictionary of the
  SceneEventHandler are fields of the same state.

  Python floats and Qt's \<open>qreal\<close> are modelled as \<open>real\<close>: rounding is not modelled.
  Qt itself is not part of the repository. The few Qt primitives the code calls are
  modelled below under the heading that names them, for items that are only translated
  (never rotated or scaled, as in the source) and that live in a single scene.

  The attributes \<open>x\<close>, \<open>y\<close>, \<open>w\<close> and \<open>h\<close> of a Knob are modelled as signed 32-bit
  integers, the values that \<open>QRect\<close> accepts. Python lets a Knob be built with larger
  values, but for such a Knob \<open>boundingRect()\<close> raises OverflowError, and with it
  \<open>paint\<close> and every \<open>updatePath\<close> of an Edge bound to the Knob; Qt cannot show or
  hit such a Knob. These Knobs are outside the model, and every statement below about
  Knobs is a statement about Knobs with 32-bit geometry. The attributes of a Node and of
  a Header are Python integers without bound, since \<open>updateSizeForChildren\<close> computes
  them; there the OverflowError of \<open>QRect\<close> is part of the model.
\<close>

subsection \<open>Values, colours, errors\<close>

text \<open>
  The \<open>margin\<close> and \<open>flow\<close> attributes of a Knob hold whatever the caller passed:
  \<open>Knob.__init__\<close> reads both from the keyword \<open>"margin"\<close>, so one attribute type has to
  hold numbers and strings.
\<close>

datatype pyval = PyInt int | PyStr string

definition FLOW_LEFT_TO_RIGHT :: pyval where
  "FLOW_LEFT_TO_RIGHT = PyStr ''flow_left_to_right''"

definition FLOW_RIGHT_TO_LEFT :: pyval where
  "FLOW_RIGHT_TO_LEFT = PyStr ''flow_right_to_left''"

datatype color = QColor nat nat nat | Qt_black | Qt_yellow

datatype brush = NoBrush | QBrush color

text \<open>
  The exceptions. \<open>UnknownFlowError\<close> is the class of the source; \<open>AttributeError\<close>,
  \<open>KeyError\<close>, \<open>TypeError\<close> and \<open>OverflowError\<close> are Python's own. \<open>NotConnectedError\<close>
  is named by the specification only: the source has no such class and no function of
  the model returns it.
\<close>

datatype error =
    UnknownFlowError
  | AttributeError
  | KeyError
  | TypeError
  | OverflowError
  | NotConnectedError

type_synonym QPointF = "real \<times> real"

datatype path_element = MoveTo QPointF | CubicTo QPointF QPointF QPointF

type_synonym QPainterPath = "path_element list"

text \<open>\<open>kwargs.get(key, default)\<close> on an optional keyword argument.\<close>

definition kw_get :: "'a option \<Rightarrow> 'a \<Rightarrow> 'a" where
  "kw_get v d = (case v of None \<Rightarrow> d | Some a \<Rightarrow> a)"

subsection \<open>Qt: QRect and the conversion of Python integers\<close>

text \<open>
  Qt primitives (Qt 4, which PySide binds). A Python integer passed where Qt expects a C
  \<open>int\<close> must lie between \<open>-2^31\<close> and \<open>2^31 - 1\<close>, and one passed where Qt expects a
  \<open>qreal\<close> must convert to a double (below \<open>2^1024 - 2^970\<close> in absolute value, where
  Python's rounding reaches the largest double); otherwise the call raises OverflowError.

  A \<open>QRect(x, y, w, h)\<close> holds 32-bit integers. \<open>right()\<close> is \<open>x + w - 1\<close> and
  \<open>bottom()\<close> is \<open>y + h - 1\<close>, computed in 32-bit arithmetic, which wraps around;
  \<open>center()\<close> is \<open>((left + right) / 2, (top + bottom) / 2)\<close> in the same arithmetic, with
  the division of C++, which truncates towards zero.
\<close>

type_synonym int32 = "32 word"

definition fits_int32 :: "int \<Rightarrow> bool" where
  "fits_int32 i = (- (2 ^ 31) \<le> i \<and> i < 2 ^ 31)"

definition fits_double :: "int \<Rightarrow> bool" where
  "fits_double i = (\<bar>i\<bar> < 2 ^ 1024 - 2 ^ 970)"

record QRect =
  rect_x :: int32
  rect_y :: int32
  rect_w :: int32
  rect_h :: int32

text \<open>\<open>QRect(x, y, w, h)\<close> called with Python integers.\<close>

definition QRect_init :: "int \<Rightarrow> int \<Rightarrow> int \<Rightarrow> int \<Rightarrow> error + QRect" where
  "QRect_init x y w h =
     (if fits_int32 x \<and> fits_int32 y \<and> fits_int32 w \<and> fits_int32 h then
        Inr \<lparr> rect_x = word_of_int x, rect_y = word_of_int y,
              rect_w = word_of_int w, rect_h = word_of_int h \<rparr>
      else Inl OverflowError)"

definition rect_left :: "QRect \<Rightarrow> int" where
  "rect_left r = sint (rect_x r)"

definition rect_right :: "QRect \<Rightarrow> int" where
  "rect_right r = sint (rect_x r + rect_w r - 1)"

definition rect_bottom :: "QRect \<Rightarrow> int" where
  "rect_bottom r = sint (rect_y r + rect_h r - 1)"

definition c_div2 :: "int \<Rightarrow> int" where
  "c_div2 a = (if 0 \<le> a then a div 2 else - ((- a) div 2))"

definition rect_center :: "QRect \<Rightarrow> QPointF" where
  "rect_center r =
     (of_int (c_div2 (sint (rect_x r + (rect_x r + rect_w r - 1)))),
      of_int (c_div2 (sint (rect_y r + (rect_y r + rect_h r - 1)))))"

subsection \<open>Knob\<close>

datatype knob_class = BaseKnob | InputKnob | OutputKnob

record knob_kwargs =
  kw_x :: "int32 option"
  kw_y :: "int32 option"
  kw_w :: "int32 option"
  kw_h :: "int32 option"
  kw_margin :: "pyval option"
  kw_flow :: "pyval option"
  kw_labelText :: "string option"
  kw_labelColor :: "color option"
  kw_fillColor :: "color option"

text \<open>
  A Knob object, with 32-bit geometry. \<open>knob_edges\<close> is the Python set \<open>self.edges\<close> (of
  Edge objects, by identity). \<open>knob_pos\<close> and \<open>knob_parent\<close> are the position and the
  parent item Qt keeps for every QGraphicsItem.
\<close>

record knob =
  knob_class :: knob_class
  knob_x :: int32
  knob_y :: int32
  knob_w :: int32
  knob_h :: int32
  knob_margin :: pyval
  knob_flow :: pyval
  knob_labelText :: string
  knob_labelColor :: color
  knob_fillColor :: color
  knob_edges :: "nat set"
  knob_pos :: QPointF
  knob_parent :: "nat option"

text \<open>\<open>Knob.__init__\<close>. The flow is read from the keyword \<open>"margin"\<close>, as in the source.\<close>

definition Knob_init :: "knob_kwargs \<Rightarrow> knob" where
  "Knob_init kwargs =
     \<lparr> knob_class = BaseKnob,
       knob_x = kw_get (kw_x kwargs) 0,
       knob_y = kw_get (kw_y kwargs) 0,
       knob_w = kw_get (kw_w kwargs) 10,
       knob_h = kw_get (kw_h kwargs) 10,
       knob_margin = kw_get (kw_margin kwargs) (PyInt 5),
       knob_flow = kw_get (kw_margin kwargs) FLOW_LEFT_TO_RIGHT,
       knob_labelText = kw_get (kw_labelText kwargs) ''value'',
       knob_labelColor = kw_get (kw_labelColor kwargs) (QColor 10 10 10),
       knob_fillColor = kw_get (kw_fillColor kwargs) (QColor 130 130 130),
       knob_edges = {},
       knob_pos = (0, 0),
       knob_parent = None \<rparr>"

definition InputKnob_init :: "knob_kwargs \<Rightarrow> knob" where
  "InputKnob_init kwargs =
     (Knob_init kwargs)
       \<lparr> knob_class := InputKnob,
         knob_labelText := kw_get (kw_labelText kwargs) ''input'',
         knob_fillColor := kw_get (kw_fillColor kwargs) (QColor 130 230 130) \<rparr>"

definition OutputKnob_init :: "knob_kwargs \<Rightarrow> knob" where
  "OutputKnob_init kwargs =
     (Knob_init kwargs)
       \<lparr> knob_class := OutputKnob,
         knob_labelText := kw_get (kw_labelText kwargs) ''output'',
         knob_fillColor := kw_get (kw_fillColor kwargs) (QColor 230 130 130),
         knob_flow := kw_get (kw_flow kwargs) FLOW_RIGHT_TO_LEFT \<rparr>"

text \<open>
  \<open>Knob.boundingRect\<close>: \<open>QRect(self.x, self.y, self.w, self.h)\<close>, which Qt accepts
  because the four values are 32-bit integers.
\<close>

definition Knob_boundingRect :: "knob \<Rightarrow> QRect" where
  "Knob_boundingRect k =
     \<lparr> rect_x = knob_x k, rect_y = knob_y k, rect_w = knob_w k, rect_h = knob_h k \<rparr>"

text \<open>
  \<open>Knob.paint\<close>. The painter is the list of the calls made on it, oldest first; the
  function returns the painter as the call left it and the exception, if one was raised.
  \<open>tw\<close> is the text measurement \<open>getTextSize(text, painter).width()\<close> of the host.
  Python's \<open>int + str\<close> and \<open>int - str\<close> raise TypeError, and \<open>drawText(x, y, text)\<close>
  raises OverflowError for an \<open>x\<close> outside the 32-bit integers.
\<close>

datatype paint_op =
    SetPen_NoPen
  | SetPen color
  | SetBrush color
  | DrawRect QRect
  | DrawText int int string

definition drawText ::
  "paint_op list \<Rightarrow> int \<Rightarrow> int \<Rightarrow> string \<Rightarrow> paint_op list \<times> error option" where
  "drawText painter x y text =
     (if fits_int32 x \<and> fits_int32 y then (painter @ [DrawText x y text], None)
      else (painter, Some OverflowError))"

definition Knob_paint ::
  "(string \<Rightarrow> int) \<Rightarrow> knob \<Rightarrow> paint_op list \<Rightarrow> paint_op list \<times> error option" where
  "Knob_paint tw k painter =
     (let bbox = Knob_boundingRect k;
          painter1 = painter @ [SetPen_NoPen, SetBrush (knob_fillColor k), DrawRect bbox,
                                SetPen (knob_labelColor k)];
          textWidth = tw (knob_labelText k);
          y = rect_bottom bbox
      in if knob_flow k = FLOW_LEFT_TO_RIGHT then
           (case knob_margin k of
              PyInt m \<Rightarrow> drawText painter1 (rect_right bbox + m) y (knob_labelText k)
            | PyStr s \<Rightarrow> (painter1, Some TypeError))
         else if knob_flow k = FLOW_RIGHT_TO_LEFT then
           (case knob_margin k of
              PyInt m \<Rightarrow> drawText painter1 (rect_left bbox - m - textWidth) y (knob_labelText k)
            | PyStr s \<Rightarrow> (painter1, Some TypeError))
         else (painter1, Some UnknownFlowError))"

subsection \<open>Edge\<close>

record edge =
  edge_lineColor :: color
  edge_hoverColor :: color
  edge_thickness :: real
  edge_knob1 :: "nat option"
  edge_knob2 :: "nat option"
  edge_pos1 :: QPointF
  edge_pos2 :: QPointF
  edge_curv1 :: real
  edge_curv3 :: real
  edge_curv2 :: real
  edge_curv4 :: real
  edge_pen :: "color \<times> real"
  edge_brush :: brush
  edge_zValue :: real
  edge_path :: QPainterPath

text \<open>
  \<open>Edge.__init__\<close>, given the value of the global \<open>CURRENT_ZOOM\<close> at the call. The pen,
  brush, z value and path are those of a new QGraphicsPathItem.
\<close>

definition Edge_init :: "real \<Rightarrow> edge" where
  "Edge_init zoom =
     \<lparr> edge_lineColor = Qt_black,
       edge_hoverColor = Qt_yellow,
       edge_thickness = 1 * zoom,
       edge_knob1 = None,
       edge_knob2 = None,
       edge_pos1 = (0, 0),
       edge_pos2 = (0, 0),
       edge_curv1 = 0.6,
       edge_curv3 = 0.4,
       edge_curv2 = 0.2,
       edge_curv4 = 0.8,
       edge_pen = (Qt_black, 0),
       edge_brush = NoBrush,
       edge_zValue = 0,
       edge_path = [] \<rparr>"

subsection \<open>Header and Node\<close>

text \<open>
  The items of a scene, by class, and the items that are ever given a parent: the source
  calls \<open>setParentItem\<close> on Headers (in \<open>addHeader\<close>) and on Knobs (in \<open>addKnob\<close>) only.
\<close>

datatype item = NodeItem nat | HeaderItem nat | KnobItem nat | EdgeItem nat

datatype child = HeaderChild nat | KnobChild nat

definition item_of_child :: "child \<Rightarrow> item" where
  "item_of_child c = (case c of HeaderChild h \<Rightarrow> HeaderItem h | KnobChild k \<Rightarrow> KnobItem k)"

record header =
  header_node :: nat
  header_text :: string
  header_h :: int
  header_fillColor :: color
  header_textColor :: color
  header_pos :: QPointF
  header_parent :: "nat option"

definition Header_init :: "nat \<Rightarrow> string \<Rightarrow> header" where
  "Header_init node text =
     \<lparr> header_node = node,
       header_text = text,
       header_h = 20,
       header_fillColor = QColor 90 90 90,
       header_textColor = QColor 240 240 240,
       header_pos = (0, 0),
       header_parent = None \<rparr>"

text \<open>
  A Node object. \<open>node_header\<close> is \<open>self.header\<close> (\<open>None\<close> until \<open>addHeader\<close>);
  \<open>node_childItems\<close> and \<open>node_pos\<close> are Qt's \<open>childItems()\<close> and \<open>pos()\<close>.
\<close>

record node =
  node_header :: "nat option"
  node_x :: int
  node_y :: int
  node_w :: int
  node_h :: int
  node_margin :: int
  node_roundness :: int
  node_fillColor :: color
  node_childItems :: "child list"
  node_pos :: QPointF

definition Node_init :: node where
  "Node_init =
     \<lparr> node_header = None,
       node_x = 0,
       node_y = 0,
       node_w = 10,
       node_h = 10,
       node_margin = 6,
       node_roundness = 0,
       node_fillColor = QColor 220 220 220,
       node_childItems = [],
       node_pos = (0, 0) \<rparr>"

subsection \<open>The program state\<close>

text \<open>
  \<open>next_edge\<close> is the number the next \<open>Edge()\<close> call gives to the object it creates.
  \<open>scene_items\<close> is the set of items of the scene. \<open>temp_edge\<close> and \<open>temp_knob\<close> are the
  two keys \<open>"edge"\<close> and \<open>"knob"\<close> of the handler's \<open>temp\<close> dictionary (\<open>None\<close>: the key is
  absent). \<open>view_m11\<close> is the horizontal scale of the view's transform.
\<close>

record state =
  knobs :: "nat \<Rightarrow> knob"
  Edges :: "nat \<Rightarrow> edge"
  headers :: "nat \<Rightarrow> header"
  nodes :: "nat \<Rightarrow> node"
  next_edge :: nat
  scene_items :: "item set"
  CURRENT_ZOOM :: real
  view_m11 :: real
  temp_edge :: "nat option"
  temp_knob :: "nat option"

text \<open>
  The outcome of a call: \<open>Inr\<close> the state it returns in, or \<open>Inl\<close> the exception it
  raises together with the state it leaves behind.
\<close>

type_synonym outcome = "(error \<times> state) + state"

definition bind_outcome :: "outcome \<Rightarrow> (state \<Rightarrow> outcome) \<Rightarrow> outcome" where
  "bind_outcome r f = (case r of Inl e \<Rightarrow> Inl e | Inr st \<Rightarrow> f st)"

subsection \<open>Qt: scene membership, positions, parent items\<close>

text \<open>
  Qt primitives. \<open>item.scene()\<close> is the scene when the item is one of its items and
  \<open>None\<close> otherwise. \<open>mapToScene\<close> of a Knob adds the Knob's position and the position
  of its parent Node. \<open>setParentItem\<close> leaves an item that already has this parent alone;
  otherwise it takes the item from its old parent's children, appends it to the new
  parent's children and moves it to the new parent's scene.
\<close>

definition point_add :: "QPointF \<Rightarrow> QPointF \<Rightarrow> QPointF" where
  "point_add p q = (fst p + fst q, snd p + snd q)"

definition Knob_in_scene :: "state \<Rightarrow> nat \<Rightarrow> bool" where
  "Knob_in_scene st k = (KnobItem k \<in> scene_items st)"

definition Knob_scenePos :: "state \<Rightarrow> nat \<Rightarrow> QPointF" where
  "Knob_scenePos st k =
     point_add (knob_pos (knobs st k))
       (case knob_parent (knobs st k) of None \<Rightarrow> (0, 0) | Some n \<Rightarrow> node_pos (nodes st n))"

definition mapToScene :: "state \<Rightarrow> nat \<Rightarrow> QPointF \<Rightarrow> QPointF" where
  "mapToScene st k p = point_add p (Knob_scenePos st k)"

definition item_parent :: "state \<Rightarrow> child \<Rightarrow> nat option" where
  "item_parent st c =
     (case c of
        KnobChild k \<Rightarrow> knob_parent (knobs st k)
      | HeaderChild h \<Rightarrow> header_parent (headers st h))"

definition set_item_parent :: "state \<Rightarrow> child \<Rightarrow> nat \<Rightarrow> state" where
  "set_item_parent st c n =
     (case c of
        KnobChild k \<Rightarrow> st\<lparr>knobs := (knobs st)(k := (knobs st k)\<lparr>knob_parent := Some n\<rparr>)\<rparr>
      | HeaderChild h \<Rightarrow>
          st\<lparr>headers := (headers st)(h := (headers st h)\<lparr>header_parent := Some n\<rparr>)\<rparr>)"

definition set_childItems :: "state \<Rightarrow> nat \<Rightarrow> child list \<Rightarrow> state" where
  "set_childItems st n cs = st\<lparr>nodes := (nodes st)(n := (nodes st n)\<lparr>node_childItems := cs\<rparr>)\<rparr>"

definition setParentItem :: "state \<Rightarrow> child \<Rightarrow> nat \<Rightarrow> state" where
  "setParentItem st c n =
     (if item_parent st c = Some n then st
      else
        let st1 = (case item_parent st c of
                     None \<Rightarrow> st
                   | Some old \<Rightarrow>
                       set_childItems st old (removeAll c (node_childItems (nodes st old))));
            st2 = set_childItems st1 n (node_childItems (nodes st1 n) @ [c]);
            st3 = set_item_parent st2 c n
        in st3\<lparr>scene_items :=
                 (if NodeItem n \<in> scene_items st3 then insert (item_of_child c) (scene_items st3)
                  else scene_items st3 - {item_of_child c})\<rparr>)"

definition Knob_setPos :: "state \<Rightarrow> nat \<Rightarrow> QPointF \<Rightarrow> state" where
  "Knob_setPos st k p = st\<lparr>knobs := (knobs st)(k := (knobs st k)\<lparr>knob_pos := p\<rparr>)\<rparr>"

subsection \<open>Edge: construction and updatePath\<close>

text \<open>
  \<open>Edge()\<close>: a new object, numbered \<open>next_edge\<close>, initialised by \<open>Edge.__init__\<close> from the
  global \<open>CURRENT_ZOOM\<close> of the moment.
\<close>

definition new_Edge :: "state \<Rightarrow> nat \<times> state" where
  "new_Edge st =
     (next_edge st,
      st\<lparr>Edges := (Edges st)(next_edge st := Edge_init (CURRENT_ZOOM st)),
         next_edge := Suc (next_edge st)\<rparr>)"

definition set_edge :: "state \<Rightarrow> nat \<Rightarrow> edge \<Rightarrow> state" where
  "set_edge st e ed = st\<lparr>Edges := (Edges st)(e := ed)\<rparr>"

text \<open>The anchor of a bound Knob: \<open>knob.mapToScene(knob.boundingRect().center())\<close>.\<close>

definition anchor :: "state \<Rightarrow> nat \<Rightarrow> QPointF" where
  "anchor st k = mapToScene st k (rect_center (Knob_boundingRect (knobs st k)))"

text \<open>
  \<open>if self.knob1: self.pos1 = ...\<close>: the position of a bound end is the Knob's anchor,
  that of a free end is the stored point.
\<close>

definition endpoint :: "state \<Rightarrow> nat option \<Rightarrow> QPointF \<Rightarrow> QPointF" where
  "endpoint st knob pos = (case knob of Some k \<Rightarrow> anchor st k | None \<Rightarrow> pos)"

definition updatePath :: "state \<Rightarrow> nat \<Rightarrow> state" where
  "updatePath st e =
     (let ed = Edges st e;
          pos1 = endpoint st (edge_knob1 ed) (edge_pos1 ed);
          pos2 = endpoint st (edge_knob2 ed) (edge_pos2 ed);
          dx = fst pos2 - fst pos1;
          dy = snd pos2 - snd pos1;
          ctrl1 = (fst pos1 + dx * edge_curv1 ed, snd pos1 + dy * edge_curv2 ed);
          ctrl2 = (fst pos1 + dx * edge_curv3 ed, snd pos1 + dy * edge_curv4 ed)
      in set_edge st e
           (ed\<lparr>edge_pen := (edge_lineColor ed, edge_thickness ed),
               edge_brush := NoBrush,
               edge_zValue := - 1,
               edge_pos1 := pos1,
               edge_pos2 := pos2,
               edge_path := [MoveTo pos1, CubicTo ctrl1 ctrl2 pos2]\<rparr>))"

subsection \<open>Knob: addEdge, removeEdge, connectTo\<close>

definition set_knob_edges :: "state \<Rightarrow> nat \<Rightarrow> nat set \<Rightarrow> state" where
  "set_knob_edges st k es = st\<lparr>knobs := (knobs st)(k := (knobs st k)\<lparr>knob_edges := es\<rparr>)\<rparr>"

text \<open>
  \<open>Knob.addEdge\<close>. \<open>self.scene()\<close> is \<open>None\<close> for a Knob outside the scene, and
  \<open>None.items()\<close> raises AttributeError, after the edge has been added to the set.
\<close>

definition addEdge :: "state \<Rightarrow> nat \<Rightarrow> nat \<Rightarrow> outcome" where
  "addEdge st k e =
     (let st1 = set_knob_edges st k (insert e (knob_edges (knobs st k)))
      in if \<not> Knob_in_scene st1 k then Inl (AttributeError, st1)
         else if EdgeItem e \<notin> scene_items st1
           then Inr (st1\<lparr>scene_items := insert (EdgeItem e) (scene_items st1)\<rparr>)
           else Inr st1)"

text \<open>
  \<open>Knob.removeEdge\<close>. \<open>set.remove\<close> raises KeyError when the element is absent, before
  anything is changed.
\<close>

definition removeEdge :: "state \<Rightarrow> nat \<Rightarrow> nat \<Rightarrow> outcome" where
  "removeEdge st k e =
     (if e \<notin> knob_edges (knobs st k) then Inl (KeyError, st)
      else
        let st1 = set_knob_edges st k (knob_edges (knobs st k) - {e})
        in if \<not> Knob_in_scene st1 k then Inl (AttributeError, st1)
           else Inr (st1\<lparr>scene_items := scene_items st1 - {EdgeItem e}\<rparr>))"

definition connectTo :: "state \<Rightarrow> nat \<Rightarrow> nat \<Rightarrow> outcome" where
  "connectTo st self knob =
     (if knob = self then Inr st
      else
        let (e, st1) = new_Edge st;
            st2 = set_edge st1 e ((Edges st1 e)\<lparr>edge_knob1 := Some self\<rparr>);
            st3 = set_edge st2 e ((Edges st2 e)\<lparr>edge_knob2 := Some knob\<rparr>)
        in bind_outcome (addEdge st3 self e) (\<lambda>st4.
           bind_outcome (addEdge st4 knob e) (\<lambda>st5.
           Inr (updatePath st5 e))))"

subsection \<open>Node: updateSizeForChildren, addHeader, addKnob\<close>

fun knob_children :: "child list \<Rightarrow> nat list" where
  "knob_children [] = []"
| "knob_children (KnobChild k # cs) = k # knob_children cs"
| "knob_children (HeaderChild h # cs) = knob_children cs"

text \<open>\<open>c.h\<close> of a child item: the attribute \<open>h\<close> of the Header or of the Knob.\<close>

definition child_h :: "state \<Rightarrow> child \<Rightarrow> int" where
  "child_h st c =
     (case c of
        KnobChild k \<Rightarrow> sint (knob_h (knobs st k))
      | HeaderChild h \<Rightarrow> header_h (headers st h))"

text \<open>
  \<open>adjustWidth\<close> and \<open>adjustHeight\<close> of \<open>updateSizeForChildren\<close>. \<open>tw\<close> is the text
  measurement \<open>getTextSize(text).width()\<close> of the host. Python's \<open>max\<close> runs over the list
  \<open>[headerWidth] + knobWidths\<close>, which is never empty.
\<close>

definition knobWidths :: "(string \<Rightarrow> int) \<Rightarrow> state \<Rightarrow> nat \<Rightarrow> int list" where
  "knobWidths tw st n =
     map (\<lambda>k. sint (knob_w (knobs st k)) + node_margin (nodes st n)
                 + tw (knob_labelText (knobs st k)))
       (knob_children (node_childItems (nodes st n)))"

definition adjustWidth :: "(string \<Rightarrow> int) \<Rightarrow> state \<Rightarrow> nat \<Rightarrow> nat \<Rightarrow> state" where
  "adjustWidth tw st n hdr =
     (let headerWidth = node_margin (nodes st n) + tw (header_text (headers st hdr));
          maxWidth = fold max (knobWidths tw st n) headerWidth
      in st\<lparr>nodes := (nodes st)(n := (nodes st n)\<lparr>node_w := maxWidth + node_margin (nodes st n)\<rparr>)\<rparr>)"

definition adjustHeight :: "state \<Rightarrow> nat \<Rightarrow> nat \<Rightarrow> state" where
  "adjustHeight st n hdr =
     (let ks = knob_children (node_childItems (nodes st n));
          knobsHeight =
            sum_list (map (\<lambda>k. sint (knob_h (knobs st k)) + node_margin (nodes st n)) ks);
          heightNeeded = header_h (headers st hdr) + knobsHeight + node_margin (nodes st n)
      in st\<lparr>nodes := (nodes st)(n := (nodes st n)\<lparr>node_h := heightNeeded\<rparr>)\<rparr>)"

text \<open>
  \<open>self.header\<close> is \<open>None\<close> until \<open>addHeader\<close>: reading \<open>self.header.text\<close> then raises
  AttributeError.
\<close>

definition updateSizeForChildren :: "(string \<Rightarrow> int) \<Rightarrow> state \<Rightarrow> nat \<Rightarrow> outcome" where
  "updateSizeForChildren tw st n =
     (case node_header (nodes st n) of
        None \<Rightarrow> Inl (AttributeError, st)
      | Some hdr \<Rightarrow> Inr (adjustHeight (adjustWidth tw st n hdr) n hdr))"

definition addHeader :: "(string \<Rightarrow> int) \<Rightarrow> state \<Rightarrow> nat \<Rightarrow> nat \<Rightarrow> outcome" where
  "addHeader tw st n hdr =
     (let st1 = st\<lparr>nodes := (nodes st)(n := (nodes st n)\<lparr>node_header := Some hdr\<rparr>)\<rparr>;
          st2 = st1\<lparr>headers :=
                  (headers st1)(hdr := (headers st1 hdr)\<lparr>header_pos := node_pos (nodes st1 n)\<rparr>)\<rparr>;
          st3 = setParentItem st2 (HeaderChild hdr) n
      in updateSizeForChildren tw st3 n)"

text \<open>
  \<open>Node.boundingRect\<close> is as high as the header only. Its four values are Python
  integers: reading \<open>self.header.h\<close> raises AttributeError without a header, and
  \<open>QRect\<close> raises OverflowError when one of them is outside the 32-bit integers.
\<close>

definition Node_boundingRect :: "state \<Rightarrow> nat \<Rightarrow> error + QRect" where
  "Node_boundingRect st n =
     (case node_header (nodes st n) of
        None \<Rightarrow> Inl AttributeError
      | Some hdr \<Rightarrow>
          QRect_init (node_x (nodes st n)) (node_y (nodes st n)) (node_w (nodes st n))
            (header_h (headers st hdr)))"

text \<open>\<open>knob.setPos(x, y)\<close> called with Python integers, which Qt takes as \<open>qreal\<close>.\<close>

definition Knob_setPos_int :: "state \<Rightarrow> nat \<Rightarrow> int \<Rightarrow> int \<Rightarrow> outcome" where
  "Knob_setPos_int st k x y =
     (if fits_double x \<and> fits_double y then Inr (Knob_setPos st k (of_int x, of_int y))
      else Inl (OverflowError, st))"

text \<open>
  \<open>yOffset\<close> of \<open>addKnob\<close>: the heights of the children so far, each with a margin.
\<close>

definition children_yOffset :: "state \<Rightarrow> nat \<Rightarrow> int" where
  "children_yOffset st n =
     sum_list (map (\<lambda>c. child_h st c + node_margin (nodes st n)) (node_childItems (nodes st n)))"

text \<open>
  \<open>Node.addKnob\<close>. \<open>xOffset = self.margin / 2\<close> is Python 2's integer division; the
  margin of every Node of the source is 6. The width and height are recomputed before
  \<open>boundingRect\<close> and \<open>setPos\<close> are called.
\<close>

definition addKnob :: "(string \<Rightarrow> int) \<Rightarrow> state \<Rightarrow> nat \<Rightarrow> nat \<Rightarrow> outcome" where
  "addKnob tw st n k =
     (let yOffset = children_yOffset st n;
          xOffset = node_margin (nodes st n) div 2;
          st1 = setParentItem st (KnobChild k) n;
          st2 = st1\<lparr>knobs :=
                  (knobs st1)(k := (knobs st1 k)\<lparr>knob_margin := PyInt (node_margin (nodes st1 n))\<rparr>)\<rparr>
      in bind_outcome (updateSizeForChildren tw st2 n) (\<lambda>st3.
           case Node_boundingRect st3 n of
             Inl err \<Rightarrow> Inl (err, st3)
           | Inr bbox \<Rightarrow>
               if knob_class (knobs st3 k) = OutputKnob then
                 Knob_setPos_int st3 k
                   (rect_right bbox - sint (knob_w (knobs st3 k)) + xOffset) yOffset
               else if knob_class (knobs st3 k) = InputKnob then
                 Knob_setPos_int st3 k (rect_left bbox - xOffset) yOffset
               else Inr st3))"

subsection \<open>GridView.wheelEvent\<close>

text \<open>
  \<open>zoomStep\<close> is set to 1.1 by \<open>GridView.__init__\<close> and never assigned again.
  \<open>self.scale(zoom, zoom)\<close> multiplies the horizontal scale of the view's transform by
  \<open>zoom\<close> (Qt primitive); the global \<open>CURRENT_ZOOM\<close> is then read back from it.
\<close>

definition zoomStep :: real where
  "zoomStep = 1.1"

definition wheelEvent :: "state \<Rightarrow> int \<Rightarrow> state" where
  "wheelEvent st delta =
     (let positive = (delta \<ge> 0);
          zoom = (if positive then zoomStep else 1.0 / zoomStep);
          st1 = st\<lparr>view_m11 := view_m11 st * zoom\<rparr>
      in st1\<lparr>CURRENT_ZOOM := view_m11 st1\<rparr>)"

subsection \<open>SceneEventHandler.eventFilter\<close>

datatype event_type =
    GraphicsSceneMouseRelease
  | GraphicsSceneMousePress
  | GraphicsSceneMouseMove
  | OtherEventType

datatype button = LeftButton | RightButton | MidButton | NoButton

text \<open>
  An event. \<open>ev_scenePos\<close> is \<open>None\<close> for an event without \<open>scenePos()\<close> (the call then
  raises AttributeError). \<open>ev_items\<close> is what the scene answers to
  \<open>scene.items(QRectF(pos - QPointF(1, 1), QSize(3, 3)))\<close> for the event's position, topmost
  item first: Qt's hit test.
\<close>

record event =
  ev_type :: event_type
  ev_button :: button
  ev_scenePos :: "QPointF option"
  ev_items :: "item list"

text \<open>\<open>itemAt\<close>: every element of the list is a QGraphicsItem, so the first one is returned.\<close>

definition itemAt :: "item list \<Rightarrow> item option" where
  "itemAt items = (case items of [] \<Rightarrow> None | i # rest \<Rightarrow> Some i)"

definition resetTemp :: "state \<Rightarrow> state" where
  "resetTemp st = st\<lparr>temp_edge := None, temp_knob := None\<rparr>"

text \<open>\<open>self.temp["knob"]\<close> raises KeyError when the key is absent.\<close>

definition cancel_edge :: "state \<Rightarrow> nat \<Rightarrow> outcome" where
  "cancel_edge st edge =
     (case temp_knob st of
        None \<Rightarrow> Inl (KeyError, st)
      | Some knob \<Rightarrow> bind_outcome (removeEdge st knob edge) (\<lambda>st1. Inr (resetTemp st1)))"

definition eventFilter :: "state \<Rightarrow> event \<Rightarrow> outcome" where
  "eventFilter st event =
     (let item = (case ev_scenePos event of
                    None \<Rightarrow> None
                  | Some pos \<Rightarrow> itemAt (ev_items event))
      in if ev_type event = GraphicsSceneMouseRelease then
           (case temp_edge st of
              None \<Rightarrow> Inr st
            | Some edge \<Rightarrow>
                (case item of
                   Some (KnobItem knob) \<Rightarrow>
                     (case temp_knob st of
                        None \<Rightarrow> Inl (KeyError, st)
                      | Some edgeStartKnob \<Rightarrow>
                          if knob = edgeStartKnob then cancel_edge st edge
                          else
                            bind_outcome (addEdge st knob edge) (\<lambda>st1.
                              let st2 = set_edge st1 edge
                                          ((Edges st1 edge)\<lparr>edge_knob2 := Some knob\<rparr>)
                              in Inr (resetTemp (updatePath st2 edge))))
                 | _ \<Rightarrow> cancel_edge st edge))
         else if ev_type event = GraphicsSceneMousePress then
           (case item of
              Some (KnobItem knob) \<Rightarrow>
                if ev_button event = LeftButton then
                  (case ev_scenePos event of
                     None \<Rightarrow> Inl (AttributeError, st)
                   | Some pos \<Rightarrow>
                       let (edge, st1) = new_Edge st;
                           st2 = set_edge st1 edge ((Edges st1 edge)\<lparr>edge_knob1 := Some knob\<rparr>);
                           st3 = set_edge st2 edge ((Edges st2 edge)\<lparr>edge_pos2 := pos\<rparr>);
                           st4 = updatePath st3 edge
                       in bind_outcome (addEdge st4 knob edge) (\<lambda>st5.
                            Inr (st5\<lparr>temp_edge := Some edge, temp_knob := Some knob\<rparr>)))
                else Inr st
            | _ \<Rightarrow> Inr st)
         else if ev_type event = GraphicsSceneMouseMove then
           (case temp_edge st of
              None \<Rightarrow> Inr st
            | Some edge \<Rightarrow>
                (case ev_scenePos event of
                   None \<Rightarrow> Inl (AttributeError, st)
                 | Some pos \<Rightarrow>
                     Inr (updatePath (set_edge st edge ((Edges st edge)\<lparr>edge_pos2 := pos\<rparr>)) edge)))
         else Inr st)"

text \<open>A sequence of events, delivered in order; an exception ends it.\<close>

fun run_events :: "state \<Rightarrow> event list \<Rightarrow> outcome" where
  "run_events st [] = Inr st"
| "run_events st (ev # evs) = bind_outcome (eventFilter st ev) (\<lambda>st1. run_events st1 evs)"

subsection \<open>Reading outcomes, building events\<close>

definition state_of :: "outcome \<Rightarrow> state" where
  "state_of r = (case r of Inl (err, st) \<Rightarrow> st | Inr st \<Rightarrow> st)"

definition raised :: "outcome \<Rightarrow> error option" where
  "raised r = (case r of Inl (err, st) \<Rightarrow> Some err | Inr st \<Rightarrow> None)"

text \<open>A mouse event of the scene: it has a scene position.\<close>

definition mouse_event :: "event_type \<Rightarrow> button \<Rightarrow> QPointF \<Rightarrow> item list \<Rightarrow> event" where
  "mouse_event t b p items =
     \<lparr> ev_type = t, ev_button = b, ev_scenePos = Some p, ev_items = items \<rparr>"

definition mouse_moves :: "(button \<times> QPointF \<times> item list) list \<Rightarrow> event list" where
  "mouse_moves ms = map (\<lambda>(b, p, items). mouse_event GraphicsSceneMouseMove b p items) ms"

text \<open>\<open>isinstance(item, Knob)\<close> on the result of \<open>itemAt\<close>.\<close>

fun isinstance_Knob :: "item option \<Rightarrow> bool" where
  "isinstance_Knob (Some (KnobItem k)) = True"
| "isinstance_Knob other = False"

text \<open>
  The handler is idle when \<open>temp\<close> is empty. It is dragging a connection from Knob \<open>a\<close>,
  entered from state \<open>st0\<close>, when \<open>temp\<close> holds the Edge created at the press and \<open>a\<close>, the
  Edge starts at \<open>a\<close> and is in \<open>a\<close>'s set and in the scene, and no other Edge and no
  other set has changed.
\<close>

definition Idle :: "state \<Rightarrow> bool" where
  "Idle st = (temp_edge st = None \<and> temp_knob st = None)"

definition DraggingConnection :: "state \<Rightarrow> nat \<Rightarrow> state \<Rightarrow> bool" where
  "DraggingConnection st0 a st =
     (temp_edge st = Some (next_edge st0) \<and> temp_knob st = Some a \<and>
      (\<forall>k. knob_edges (knobs st k) =
             (if k = a then insert (next_edge st0) (knob_edges (knobs st0 a))
              else knob_edges (knobs st0 k))) \<and>
      scene_items st = insert (EdgeItem (next_edge st0)) (scene_items st0) \<and>
      edge_knob1 (Edges st (next_edge st0)) = Some a \<and>
      (\<forall>e. e \<noteq> next_edge st0 \<longrightarrow> Edges st e = Edges st0 e) \<and>
      next_edge st = Suc (next_edge st0))"

text \<open>
  The curvature attributes as \<open>Edge.__init__\<close> sets them; no statement of the source
  assigns them again.
\<close>

definition init_curvature :: "edge \<Rightarrow> bool" where
  "init_curvature ed =
     (edge_curv1 ed = 0.6 \<and> edge_curv3 ed = 0.4 \<and> edge_curv2 ed = 0.2 \<and> edge_curv4 ed = 0.8)"

subsection \<open>The formulas of the specification\<close>

text \<open>
  The width as the specification writes it: margin, then the larger of the title's
  natural width and of the widest socket (socket width, margin, label width), then margin.
\<close>

definition spec_width :: "(string \<Rightarrow> int) \<Rightarrow> state \<Rightarrow> nat \<Rightarrow> nat \<Rightarrow> int" where
  "spec_width tw st n hdr =
     node_margin (nodes st n)
       + Max (insert (tw (header_text (headers st hdr))) (set (knobWidths tw st n)))
       + node_margin (nodes st n)"

text \<open>
  The width as \<open>adjustWidth\<close> leaves it: the margin is added to the title's width before
  the maximum is taken, and once more after it. The two bounds follow.
\<close>

definition width_fits :: "(string \<Rightarrow> int) \<Rightarrow> state \<Rightarrow> nat \<Rightarrow> nat \<Rightarrow> bool" where
  "width_fits tw st n hdr =
     (let margin = node_margin (nodes st n);
          title = tw (header_text (headers st hdr));
          width = node_w (nodes st n)
      in width = Max (insert (margin + title) (set (knobWidths tw st n))) + margin \<and>
         width \<ge> margin + title + margin \<and>
         (\<forall>k \<in> set (knob_children (node_childItems (nodes st n))).
            width \<ge> sint (knob_w (knobs st k)) + margin + tw (knob_labelText (knobs st k))
                      + margin))"

text \<open>
  The curve as the specification writes it: from \<open>p1\<close> to \<open>p2\<close>, with control points at
  the fractions (0.6, 0.2) and (0.4, 0.8) of the vector from \<open>p1\<close> to \<open>p2\<close>.
\<close>

definition spec_curve :: "QPointF \<Rightarrow> QPointF \<Rightarrow> QPainterPath" where
  "spec_curve p1 p2 =
     (let dx = fst p2 - fst p1; dy = snd p2 - snd p1
      in [MoveTo p1,
          CubicTo (fst p1 + 0.6 * dx, snd p1 + 0.2 * dy) (fst p1 + 0.4 * dx, snd p1 + 0.8 * dy) p2])"

subsection \<open>A small scene\<close>

text \<open>
  The state before any object is built, and the first two nodes of the source's \<open>test()\<close>:
  an \<open>Integer\<close> node (Header \<open>"Int"\<close>, OutputKnob \<open>"value"\<close>) and the start of a
  \<open>Multiply\<close> node (Header \<open>"Multiply"\<close>, InputKnob \<open>"x"\<close>), moved to (200, 100). The text
  measurement \<open>tw7\<close> gives every character 7 pixels.
\<close>

definition no_kwargs :: knob_kwargs where
  "no_kwargs =
     \<lparr> kw_x = None, kw_y = None, kw_w = None, kw_h = None, kw_margin = None,
       kw_flow = None, kw_labelText = None, kw_labelColor = None, kw_fillColor = None \<rparr>"

definition empty_state :: state where
  "empty_state =
     \<lparr> knobs = (\<lambda>k. Knob_init no_kwargs),
       Edges = (\<lambda>e. Edge_init 1),
       headers = (\<lambda>h. Header_init 0 []),
       nodes = (\<lambda>n. Node_init),
       next_edge = 0,
       scene_items = {},
       CURRENT_ZOOM = 1.0,
       view_m11 = 1,
       temp_edge = None,
       temp_knob = None \<rparr>"

definition tw7 :: "string \<Rightarrow> int" where
  "tw7 s = 7 * int (length s)"

definition two_nodes :: state where
  "two_nodes =
     empty_state
       \<lparr> knobs := (knobs empty_state)
            (0 := OutputKnob_init (no_kwargs\<lparr>kw_labelText := Some ''value''\<rparr>),
             1 := InputKnob_init (no_kwargs\<lparr>kw_labelText := Some ''x''\<rparr>)),
         headers := (headers empty_state)
            (0 := Header_init 0 ''Int'', 1 := Header_init 1 ''Multiply''),
         nodes := (nodes empty_state)(1 := Node_init\<lparr>node_pos := (200, 100)\<rparr>),
         scene_items := {NodeItem 0, NodeItem 1} \<rparr>"

definition Integer_node :: state where
  "Integer_node = state_of (addKnob tw7 (state_of (addHeader tw7 two_nodes 0 0)) 0 0)"

definition demo_state :: state where
  "demo_state = state_of (addKnob tw7 (state_of (addHeader tw7 Integer_node 1 1)) 1 1)"

text \<open>The small scene after \<open>connectTo\<close> from Knob 0 to Knob 1.\<close>

definition connected_state :: state where
  "connected_state = state_of (connectTo demo_state 0 1)"

text \<open>
  \<open>Edge()\<close> returns a new object. In the store this is an invariant: every Edge that a
  Knob's set, the scene or \<open>temp\<close> refers to has a number below \<open>next_edge\<close>.
\<close>

definition allocated :: "state \<Rightarrow> bool" where
  "allocated st =
     ((\<forall>k. \<forall>e \<in> knob_edges (knobs st k). e < next_edge st) \<and>
      (\<forall>e. EdgeItem e \<in> scene_items st \<longrightarrow> e < next_edge st) \<and>
      (\<forall>e. temp_edge st = Some e \<longrightarrow> e < next_edge st))"

section \<open>Frame lemmas\<close>

lemma mouse_event_simps [simp]:
  "ev_type (mouse_event t b p items) = t"
  "ev_button (mouse_event t b p items) = b"
  "ev_scenePos (mouse_event t b p items) = Some p"
  "ev_items (mouse_event t b p items) = items"
  by (simp_all add: mouse_event_def)

lemma set_edge_frame [simp]:
  "knobs (set_edge st e ed) = knobs st"
  "headers (set_edge st e ed) = headers st"
  "nodes (set_edge st e ed) = nodes st"
  "next_edge (set_edge st e ed) = next_edge st"
  "scene_items (set_edge st e ed) = scene_items st"
  "CURRENT_ZOOM (set_edge st e ed) = CURRENT_ZOOM st"
  "view_m11 (set_edge st e ed) = view_m11 st"
  "temp_edge (set_edge st e ed) = temp_edge st"
  "temp_knob (set_edge st e ed) = temp_knob st"
  "Edges (set_edge st e ed) = (Edges st)(e := ed)"
  by (simp_all add: set_edge_def)

lemma anchor_cong:
  "knobs st' = knobs st \<Longrightarrow> nodes st' = nodes st \<Longrightarrow> anchor st' k = anchor st k"
  by (simp add: anchor_def mapToScene_def Knob_scenePos_def split: option.splits)

lemma endpoint_cong:
  "knobs st' = knobs st \<Longrightarrow> nodes st' = nodes st \<Longrightarrow> endpoint st' kn p = endpoint st kn p"
  by (simp add: endpoint_def anchor_def mapToScene_def Knob_scenePos_def split: option.splits)

lemma updatePath_frame [simp]:
  "knobs (updatePath st e) = knobs st"
  "headers (updatePath st e) = headers st"
  "nodes (updatePath st e) = nodes st"
  "next_edge (updatePath st e) = next_edge st"
  "scene_items (updatePath st e) = scene_items st"
  "CURRENT_ZOOM (updatePath st e) = CURRENT_ZOOM st"
  "view_m11 (updatePath st e) = view_m11 st"
  "temp_edge (updatePath st e) = temp_edge st"
  "temp_knob (updatePath st e) = temp_knob st"
  by (simp_all add: updatePath_def Let_def)

lemma updatePath_other [simp]: "e' \<noteq> e \<Longrightarrow> Edges (updatePath st e) e' = Edges st e'"
  by (simp add: updatePath_def Let_def)

lemma updatePath_fields [simp]:
  "edge_knob1 (Edges (updatePath st e) e') = edge_knob1 (Edges st e')"
  "edge_knob2 (Edges (updatePath st e) e') = edge_knob2 (Edges st e')"
  "edge_thickness (Edges (updatePath st e) e') = edge_thickness (Edges st e')"
  "edge_curv1 (Edges (updatePath st e) e') = edge_curv1 (Edges st e')"
  "edge_curv2 (Edges (updatePath st e) e') = edge_curv2 (Edges st e')"
  "edge_curv3 (Edges (updatePath st e) e') = edge_curv3 (Edges st e')"
  "edge_curv4 (Edges (updatePath st e) e') = edge_curv4 (Edges st e')"
  "edge_lineColor (Edges (updatePath st e) e') = edge_lineColor (Edges st e')"
  by (simp_all add: updatePath_def Let_def)

lemma updatePath_pos:
  "edge_pos1 (Edges (updatePath st e) e) = endpoint st (edge_knob1 (Edges st e)) (edge_pos1 (Edges st e))"
  "edge_pos2 (Edges (updatePath st e) e) = endpoint st (edge_knob2 (Edges st e)) (edge_pos2 (Edges st e))"
  by (simp_all add: updatePath_def Let_def)

lemma endpoint_idem:
  "endpoint st' kn (endpoint st kn p) = endpoint st' kn p"
  by (simp add: endpoint_def split: option.splits)

lemma set_knob_edges_frame [simp]:
  "headers (set_knob_edges st k es) = headers st"
  "nodes (set_knob_edges st k es) = nodes st"
  "Edges (set_knob_edges st k es) = Edges st"
  "next_edge (set_knob_edges st k es) = next_edge st"
  "scene_items (set_knob_edges st k es) = scene_items st"
  "CURRENT_ZOOM (set_knob_edges st k es) = CURRENT_ZOOM st"
  "view_m11 (set_knob_edges st k es) = view_m11 st"
  "temp_edge (set_knob_edges st k es) = temp_edge st"
  "temp_knob (set_knob_edges st k es) = temp_knob st"
  "knob_edges (knobs (set_knob_edges st k es) k') = (if k' = k then es else knob_edges (knobs st k'))"
  "Knob_in_scene (set_knob_edges st k es) k' = Knob_in_scene st k'"
  by (simp_all add: set_knob_edges_def Knob_in_scene_def)

lemma new_Edge_simps [simp]:
  "fst (new_Edge st) = next_edge st"
  "knobs (snd (new_Edge st)) = knobs st"
  "headers (snd (new_Edge st)) = headers st"
  "nodes (snd (new_Edge st)) = nodes st"
  "next_edge (snd (new_Edge st)) = Suc (next_edge st)"
  "scene_items (snd (new_Edge st)) = scene_items st"
  "CURRENT_ZOOM (snd (new_Edge st)) = CURRENT_ZOOM st"
  "view_m11 (snd (new_Edge st)) = view_m11 st"
  "temp_edge (snd (new_Edge st)) = temp_edge st"
  "temp_knob (snd (new_Edge st)) = temp_knob st"
  "Edges (snd (new_Edge st)) = (Edges st)(next_edge st := Edge_init (CURRENT_ZOOM st))"
  by (simp_all add: new_Edge_def)

lemma Knob_in_scene_frame [simp]:
  "Knob_in_scene (set_edge st e ed) k = Knob_in_scene st k"
  "Knob_in_scene (updatePath st e) k = Knob_in_scene st k"
  "Knob_in_scene (snd (new_Edge st)) k = Knob_in_scene st k"
  by (simp_all add: Knob_in_scene_def)

text \<open>Adding an Edge to, and removing one from, a Knob that is in the scene.\<close>

lemma addEdge_in_scene:
  "Knob_in_scene st k \<Longrightarrow>
   addEdge st k e =
     Inr ((set_knob_edges st k (insert e (knob_edges (knobs st k))))
            \<lparr>scene_items := insert (EdgeItem e) (scene_items st)\<rparr>)"
  by (auto simp add: addEdge_def Let_def insert_absorb)

lemma removeEdge_in_scene:
  "Knob_in_scene st k \<Longrightarrow> e \<in> knob_edges (knobs st k) \<Longrightarrow>
   removeEdge st k e =
     Inr ((set_knob_edges st k (knob_edges (knobs st k) - {e}))
            \<lparr>scene_items := scene_items st - {EdgeItem e}\<rparr>)"
  by (simp add: removeEdge_def Let_def)

section \<open>The gesture, step by step\<close>

lemma press_enters_drag:
  assumes "Knob_in_scene st a" and "itemAt items = Some (KnobItem a)"
  shows "\<exists>st1. eventFilter st (mouse_event GraphicsSceneMousePress LeftButton p items) = Inr st1
               \<and> DraggingConnection st a st1"
  using assms
  by (simp add: eventFilter_def Let_def split_beta addEdge_in_scene bind_outcome_def
        DraggingConnection_def)

lemma press_other_button:
  "b \<noteq> LeftButton \<Longrightarrow> eventFilter st (mouse_event GraphicsSceneMousePress b p items) = Inr st"
  by (simp add: eventFilter_def Let_def split: option.splits item.splits)

lemma move_keeps_drag:
  assumes "DraggingConnection st0 a st"
  shows "\<exists>st1. eventFilter st (mouse_event GraphicsSceneMouseMove b p items) = Inr st1
               \<and> DraggingConnection st0 a st1"
  using assms
  by (simp add: eventFilter_def Let_def DraggingConnection_def)

lemma moves_keep_drag:
  assumes "DraggingConnection st0 a st"
  shows "\<exists>st1. DraggingConnection st0 a st1 \<and>
           (\<forall>rest. run_events st (mouse_moves ms @ rest) = run_events st1 rest)"
  using assms
proof (induction ms arbitrary: st)
  case Nil
  then show ?case by (auto simp add: mouse_moves_def)
next
  case (Cons m ms)
  obtain b p items where m: "m = (b, p, items)" by (cases m) auto
  from move_keeps_drag [OF Cons.prems, of b p items]
  obtain st1 where s1: "eventFilter st (mouse_event GraphicsSceneMouseMove b p items) = Inr st1"
    and d1: "DraggingConnection st0 a st1" by blast
  from Cons.IH [OF d1] obtain st2 where d2: "DraggingConnection st0 a st2"
    and r2: "\<forall>rest. run_events st1 (mouse_moves ms @ rest) = run_events st2 rest" by blast
  show ?case
    using d2 r2 s1 by (auto simp add: m bind_outcome_def mouse_moves_def)
qed

lemma idle_move:
  "Idle st \<Longrightarrow> eventFilter st (mouse_event GraphicsSceneMouseMove b p items) = Inr st"
  by (simp add: eventFilter_def Let_def Idle_def)

lemma idle_release:
  "Idle st \<Longrightarrow> eventFilter st (mouse_event GraphicsSceneMouseRelease b p items) = Inr st"
  by (simp add: eventFilter_def Let_def Idle_def)

lemma idle_moves:
  "Idle st \<Longrightarrow> run_events st (mouse_moves ms @ rest) = run_events st rest"
  by (induction ms) (auto simp add: mouse_moves_def idle_move bind_outcome_def)

lemma release_on_other_knob:
  assumes "DraggingConnection st0 a st" and "itemAt items = Some (KnobItem b)" and "b \<noteq> a"
    and "Knob_in_scene st0 b"
  shows "\<exists>st1. eventFilter st (mouse_event GraphicsSceneMouseRelease btn p items) = Inr st1 \<and>
           Idle st1 \<and>
           knob_edges (knobs st1 a) = insert (next_edge st0) (knob_edges (knobs st0 a)) \<and>
           knob_edges (knobs st1 b) = insert (next_edge st0) (knob_edges (knobs st0 b)) \<and>
           (\<forall>k. k \<noteq> a \<and> k \<noteq> b \<longrightarrow> knob_edges (knobs st1 k) = knob_edges (knobs st0 k)) \<and>
           scene_items st1 = insert (EdgeItem (next_edge st0)) (scene_items st0) \<and>
           edge_knob1 (Edges st1 (next_edge st0)) = Some a \<and>
           edge_knob2 (Edges st1 (next_edge st0)) = Some b \<and>
           (\<forall>e. e \<noteq> next_edge st0 \<longrightarrow> Edges st1 e = Edges st0 e) \<and>
           next_edge st1 = Suc (next_edge st0)"
proof -
  have sc: "Knob_in_scene st b"
    using assms(1,4) by (simp add: DraggingConnection_def Knob_in_scene_def)
  show ?thesis
    using assms(1,2,3)
    by (simp add: eventFilter_def Let_def DraggingConnection_def addEdge_in_scene [OF sc]
          bind_outcome_def resetTemp_def Idle_def)
qed

lemma release_cancels:
  assumes "DraggingConnection st0 a st" and "Knob_in_scene st0 a"
    and "itemAt items = Some (KnobItem a) \<or> \<not> isinstance_Knob (itemAt items)"
  shows "\<exists>st1. eventFilter st (mouse_event GraphicsSceneMouseRelease btn p items) = Inr st1 \<and>
           Idle st1 \<and>
           (\<forall>k. knob_edges (knobs st1 k) =
                 (if k = a then knob_edges (knobs st0 a) - {next_edge st0}
                  else knob_edges (knobs st0 k))) \<and>
           scene_items st1 = scene_items st0 - {EdgeItem (next_edge st0)} \<and>
           (\<forall>e. e \<noteq> next_edge st0 \<longrightarrow> Edges st1 e = Edges st0 e) \<and>
           next_edge st1 = Suc (next_edge st0)"
proof -
  have sc: "Knob_in_scene st a"
    using assms(1,2) by (simp add: DraggingConnection_def Knob_in_scene_def)
  have mem: "next_edge st0 \<in> knob_edges (knobs st a)"
    using assms(1) by (simp add: DraggingConnection_def)
  have c: "\<exists>st1. cancel_edge st (next_edge st0) = Inr st1 \<and>
           Idle st1 \<and>
           (\<forall>k. knob_edges (knobs st1 k) =
                 (if k = a then knob_edges (knobs st0 a) - {next_edge st0}
                  else knob_edges (knobs st0 k))) \<and>
           scene_items st1 = scene_items st0 - {EdgeItem (next_edge st0)} \<and>
           (\<forall>e. e \<noteq> next_edge st0 \<longrightarrow> Edges st1 e = Edges st0 e) \<and>
           next_edge st1 = Suc (next_edge st0)"
    using assms(1)
    by (simp add: cancel_edge_def DraggingConnection_def removeEdge_in_scene [OF sc mem]
          bind_outcome_def resetTemp_def Idle_def)
  have "eventFilter st (mouse_event GraphicsSceneMouseRelease btn p items)
          = cancel_edge st (next_edge st0)"
    using assms(1,3)
    apply (simp add: eventFilter_def Let_def DraggingConnection_def)
    apply (cases "itemAt items")
     apply simp
    subgoal for i by (cases i) auto
    done
  then show ?thesis using c by simp
qed

text \<open>A whole gesture that ends in a cancellation, from an idle handler, with any button.\<close>

lemma gesture_cancelled:
  assumes "Idle st" and "Knob_in_scene st a"
    and "itemAt under_press = Some (KnobItem a)"
    and "itemAt under_release = Some (KnobItem a) \<or> \<not> isinstance_Knob (itemAt under_release)"
    and "next_edge st \<notin> knob_edges (knobs st a)"
    and "EdgeItem (next_edge st) \<notin> scene_items st"
  shows "\<exists>st'. run_events st
                 (mouse_event GraphicsSceneMousePress b0 p under_press
                  # mouse_moves ms
                  @ [mouse_event GraphicsSceneMouseRelease b1 q under_release]) = Inr st' \<and>
          Idle st' \<and>
          (\<forall>k. knob_edges (knobs st' k) = knob_edges (knobs st k)) \<and>
          scene_items st' = scene_items st \<and>
          (\<forall>e. e \<noteq> next_edge st \<longrightarrow> Edges st' e = Edges st e)"
proof (cases "b0 = LeftButton")
  case True
  from press_enters_drag [OF assms(2,3), of p]
  obtain st1 where p1: "eventFilter st (mouse_event GraphicsSceneMousePress LeftButton p under_press) = Inr st1"
    and d1: "DraggingConnection st a st1" by blast
  from moves_keep_drag [OF d1, of ms]
  obtain st2 where d2: "DraggingConnection st a st2"
    and r2: "\<forall>rest. run_events st1 (mouse_moves ms @ rest) = run_events st2 rest" by blast
  from release_cancels [OF d2 assms(2,4), of b1 q]
  obtain st3 where r3: "eventFilter st2 (mouse_event GraphicsSceneMouseRelease b1 q under_release) = Inr st3"
    and i3: "Idle st3"
    and k3: "\<forall>k. knob_edges (knobs st3 k) =
                 (if k = a then knob_edges (knobs st a) - {next_edge st}
                  else knob_edges (knobs st k))"
    and s3: "scene_items st3 = scene_items st - {EdgeItem (next_edge st)}"
    and e3: "\<forall>e. e \<noteq> next_edge st \<longrightarrow> Edges st3 e = Edges st e" by blast
  have run: "run_events st
                 (mouse_event GraphicsSceneMousePress b0 p under_press
                  # mouse_moves ms
                  @ [mouse_event GraphicsSceneMouseRelease b1 q under_release]) = Inr st3"
    using True p1 r2 r3 by (simp add: bind_outcome_def)
  show ?thesis
    using run i3 k3 s3 e3 assms(5,6) by auto
next
  case False
  have "run_events st
                 (mouse_event GraphicsSceneMousePress b0 p under_press
                  # mouse_moves ms
                  @ [mouse_event GraphicsSceneMouseRelease b1 q under_release]) = Inr st"
    using False assms(1)
    by (simp add: press_other_button bind_outcome_def idle_moves idle_release)
  then show ?thesis using assms(1) by simp
qed



section \<open>Evaluating the small scene\<close>

lemma fits_double_int32: "fits_int32 i \<Longrightarrow> fits_double i"
proof -
  assume "fits_int32 i"
  then have "\<bar>i\<bar> \<le> 2 ^ 31" by (simp add: fits_int32_def abs_if)
  moreover have "(2::int) ^ 31 < 2 ^ 1024 - 2 ^ 970" by simp
  ultimately show ?thesis unfolding fits_double_def by linarith
qed

lemmas scene_defs =
  Integer_node_def demo_state_def two_nodes_def empty_state_def addKnob_def addHeader_def Let_def
  setParentItem_def item_parent_def set_item_parent_def set_childItems_def
  updateSizeForChildren_def adjustWidth_def adjustHeight_def knobWidths_def child_h_def
  Node_init_def Header_init_def OutputKnob_init_def InputKnob_init_def Knob_init_def
  no_kwargs_def kw_get_def tw7_def state_of_def raised_def bind_outcome_def
  Node_boundingRect_def Knob_setPos_def item_of_child_def rect_right_def rect_left_def
  QRect_init_def fits_int32_def fits_double_int32 Knob_setPos_int_def children_yOffset_def
  FLOW_LEFT_TO_RIGHT_def FLOW_RIGHT_TO_LEFT_def

lemma demo_state_scene:
  "scene_items demo_state =
     {NodeItem 0, NodeItem 1, HeaderItem 0, HeaderItem 1, KnobItem 0, KnobItem 1}"
  by (simp add: scene_defs) auto

lemma demo_state_in_scene: "Knob_in_scene demo_state 0" "Knob_in_scene demo_state 1"
  by (simp_all add: Knob_in_scene_def demo_state_scene)

lemma demo_state_edges: "knob_edges (knobs demo_state k) = {}"
  by (simp add: scene_defs)

lemma demo_state_handler:
  "next_edge demo_state = 0" "temp_edge demo_state = None" "temp_knob demo_state = None"
  by (simp_all add: scene_defs)

lemma demo_state_Idle: "Idle demo_state"
  by (simp add: Idle_def demo_state_handler)

section \<open>The 32-bit integers of Qt\<close>

text \<open>
  What \<open>QRect\<close> does outside and at the edge of its range: \<open>QRect(2^31, 0, 10, 10)\<close>
  raises OverflowError, and the right edge of \<open>QRect(2^31 - 1, 0, 10, 10)\<close> wraps around.
\<close>

lemma QRect_init_overflow: "QRect_init (2 ^ 31) 0 10 10 = Inl OverflowError"
  by (simp add: QRect_init_def fits_int32_def)

lemma rect_right_wraps:
  "rect_right \<lparr> rect_x = 2147483647, rect_y = 0, rect_w = 10, rect_h = 10 \<rparr> = - 2147483640"
  by (simp add: rect_right_def)

lemma Node_boundingRect_overflow:
  "node_header (nodes st n) = Some hdr \<Longrightarrow> \<not> fits_int32 (node_w (nodes st n)) \<Longrightarrow>
   Node_boundingRect st n = Inl OverflowError"
  by (simp add: Node_boundingRect_def QRect_init_def)

section \<open>Invariants\<close>

text \<open>
  The Edge that the next \<open>Edge()\<close> call creates is in no set and not in the scene, in every
  state that the program reaches: \<open>allocated\<close> holds at the start and is kept by
  \<open>connectTo\<close> and by \<open>eventFilter\<close>.
\<close>

lemma allocated_new:
  "allocated st \<Longrightarrow>
   next_edge st \<notin> knob_edges (knobs st k) \<and> EdgeItem (next_edge st) \<notin> scene_items st"
  by (auto simp add: allocated_def)

lemma allocated_empty_state: "allocated empty_state"
  by (simp add: allocated_def empty_state_def Knob_init_def)

lemma allocated_demo_state: "allocated demo_state"
  by (simp add: allocated_def demo_state_edges demo_state_scene demo_state_handler)

lemma addEdge_allocated:
  assumes "allocated st" and "e < next_edge st" and "addEdge st k e = Inr st'"
  shows "allocated st' \<and> next_edge st' = next_edge st \<and> temp_edge st' = temp_edge st
         \<and> temp_knob st' = temp_knob st"
  using assms
  by (auto simp add: addEdge_def Let_def allocated_def set_knob_edges_def split: if_splits)

lemma removeEdge_allocated:
  assumes "allocated st" and "removeEdge st k e = Inr st'"
  shows "allocated st' \<and> next_edge st' = next_edge st \<and> temp_edge st' = temp_edge st
         \<and> temp_knob st' = temp_knob st"
  using assms
  by (auto simp add: removeEdge_def Let_def allocated_def set_knob_edges_def split: if_splits)

lemma allocated_Edges_update: "allocated (st\<lparr>Edges := f\<rparr>) = allocated st"
  by (simp add: allocated_def)

lemma allocated_set_edge: "allocated (set_edge st e ed) = allocated st"
  by (simp add: allocated_def)

lemma allocated_updatePath: "allocated (updatePath st e) = allocated st"
  by (simp add: allocated_def)

lemma allocated_new_Edge:
  "allocated st \<Longrightarrow> allocated (snd (new_Edge st))"
  by (auto simp add: allocated_def less_Suc_eq)

lemma connectTo_allocated:
  assumes "allocated st" and "connectTo st a b = Inr st'"
  shows "allocated st'"
proof (cases "b = a")
  case True
  then show ?thesis using assms by (simp add: connectTo_def)
next
  case False
  define e where "e = next_edge st"
  define st3 where "st3 = set_edge (set_edge (snd (new_Edge st)) e ((Edges (snd (new_Edge st)) e)\<lparr>edge_knob1 := Some a\<rparr>)) e
     ((Edges (set_edge (snd (new_Edge st)) e ((Edges (snd (new_Edge st)) e)\<lparr>edge_knob1 := Some a\<rparr>)) e)\<lparr>edge_knob2 := Some b\<rparr>)"
  have a3: "allocated st3" and n3: "e < next_edge st3"
    using assms(1) by (simp_all add: st3_def allocated_set_edge allocated_new_Edge e_def)
  have c: "connectTo st a b =
             bind_outcome (addEdge st3 a e) (\<lambda>st4.
             bind_outcome (addEdge st4 b e) (\<lambda>st5. Inr (updatePath st5 e)))"
    using False by (simp add: connectTo_def split_beta Let_def st3_def e_def)
  from assms(2) c obtain st4 st5 where
    s4: "addEdge st3 a e = Inr st4" and s5: "addEdge st4 b e = Inr st5"
    and r: "st' = updatePath st5 e"
    by (auto simp add: bind_outcome_def split: sum.splits)
  from addEdge_allocated [OF a3 n3 s4] have a4: "allocated st4" and n4: "e < next_edge st4"
    using n3 by simp_all
  from addEdge_allocated [OF a4 n4 s5] have "allocated st5" by simp
  then show ?thesis by (simp add: r allocated_updatePath)
qed

lemma eventFilter_allocated:
  assumes "allocated st" and "eventFilter st ev = Inr st'"
  shows "allocated st'"
proof -
  have rel: "allocated st'" if "ev_type ev = GraphicsSceneMouseRelease"
  proof (cases "temp_edge st")
    case None
    then show ?thesis using that assms by (simp add: eventFilter_def Let_def)
  next
    case (Some edge)
    have lt: "edge < next_edge st" using Some assms(1) by (simp add: allocated_def)
    have canc: "allocated s" if "cancel_edge st edge = Inr s" for s
    proof -
      from that obtain knob s1 where r: "removeEdge st knob edge = Inr s1" and s: "s = resetTemp s1"
        by (auto simp add: cancel_edge_def bind_outcome_def split: option.splits sum.splits)
      from removeEdge_allocated [OF assms(1) r] have "allocated s1" by simp
      then show ?thesis
        by (simp add: s resetTemp_def allocated_def)
    qed
    have fin: "allocated s"
      if "bind_outcome (addEdge st knob edge) (\<lambda>st1.
             let st2 = set_edge st1 edge ((Edges st1 edge)\<lparr>edge_knob2 := Some knob\<rparr>)
             in Inr (resetTemp (updatePath st2 edge))) = Inr s" for s knob
    proof -
      from that obtain s1 where a: "addEdge st knob edge = Inr s1"
        and s: "s = resetTemp (updatePath (set_edge s1 edge ((Edges s1 edge)\<lparr>edge_knob2 := Some knob\<rparr>)) edge)"
        by (auto simp add: bind_outcome_def Let_def split: sum.splits)
      from addEdge_allocated [OF assms(1) lt a] have "allocated s1" by simp
      then show ?thesis
        by (simp add: s resetTemp_def allocated_def)
    qed
    show ?thesis
      using that assms(2) Some canc fin
      by (auto simp add: eventFilter_def Let_def split: option.splits item.splits if_splits)
  qed
  have prs: "allocated st'" if "ev_type ev = GraphicsSceneMousePress"
  proof (cases "\<exists>knob pos. ev_scenePos ev = Some pos \<and> itemAt (ev_items ev) = Some (KnobItem knob)
                  \<and> ev_button ev = LeftButton")
    case False
    then have "eventFilter st ev = Inr st"
      using that by (auto simp add: eventFilter_def Let_def split: option.splits item.splits)
    then show ?thesis using assms by simp
  next
    case True
    then obtain knob pos where ev: "ev_scenePos ev = Some pos"
      "itemAt (ev_items ev) = Some (KnobItem knob)" "ev_button ev = LeftButton" by blast
    define e where "e = next_edge st"
    define st4 where "st4 = updatePath (set_edge (set_edge (snd (new_Edge st)) e
         ((Edges (snd (new_Edge st)) e)\<lparr>edge_knob1 := Some knob\<rparr>)) e
         ((Edges (set_edge (snd (new_Edge st)) e
         ((Edges (snd (new_Edge st)) e)\<lparr>edge_knob1 := Some knob\<rparr>)) e)\<lparr>edge_pos2 := pos\<rparr>)) e"
    have a4: "allocated st4" and n4: "e < next_edge st4"
      using assms(1)
      by (simp_all add: st4_def allocated_updatePath allocated_set_edge allocated_new_Edge e_def)
    have "eventFilter st ev = bind_outcome (addEdge st4 knob e) (\<lambda>st5.
             Inr (st5\<lparr>temp_edge := Some e, temp_knob := Some knob\<rparr>))"
      using that ev by (simp add: eventFilter_def Let_def split_beta st4_def e_def)
    with assms(2) obtain st5 where a: "addEdge st4 knob e = Inr st5"
      and s: "st' = st5\<lparr>temp_edge := Some e, temp_knob := Some knob\<rparr>"
      by (auto simp add: bind_outcome_def split: sum.splits)
    from addEdge_allocated [OF a4 n4 a] have "allocated st5" "next_edge st5 = next_edge st4"
      by simp_all
    then show ?thesis using n4 by (simp add: s allocated_def)
  qed
  have mov: "allocated st'" if "ev_type ev = GraphicsSceneMouseMove"
    using that assms
    by (auto simp add: eventFilter_def Let_def allocated_updatePath allocated_set_edge
          split: option.splits)
  have oth: "allocated st'" if "ev_type ev = OtherEventType"
    using that assms by (simp add: eventFilter_def Let_def)
  show ?thesis
    using rel prs mov oth by (cases "ev_type ev") auto
qed

text \<open>
  The global \<open>CURRENT_ZOOM\<close> is the scale of the view at the start and after every wheel
  event.
\<close>

lemma empty_state_zoom: "view_m11 empty_state = CURRENT_ZOOM empty_state"
  by (simp add: empty_state_def)

lemma wheelEvent_zoom: "view_m11 (wheelEvent st delta) = CURRENT_ZOOM (wheelEvent st delta)"
  by (simp add: wheelEvent_def Let_def)

section \<open>The claims\<close>

text \<open>
  Claim C5, as amended. For every Knob and every Edge that is not in the Knob's set
  \<open>edges\<close>, \<open>removeEdge\<close> raises Python's KeyError (from \<open>set.remove\<close>), which reaches
  the caller, and leaves the state as it was. The source has no NotConnectedError.
\<close>

theorem removeEdge_unregistered:
  "e \<notin> knob_edges (knobs st k) \<Longrightarrow> removeEdge st k e = Inl (KeyError, st)"
  by (simp add: removeEdge_def)

theorem removeEdge_unregistered_witness:
  "0 \<notin> knob_edges (knobs demo_state 0) \<and> removeEdge demo_state 0 0 = Inl (KeyError, demo_state)"
proof -
  have h: "0 \<notin> knob_edges (knobs demo_state 0)"
    by (simp add: demo_state_edges)
  show ?thesis
    using h removeEdge_unregistered [OF h] by simp
qed

text \<open>
  Claim C5 as stated fails: in the small scene Edge 0 is not registered on Knob 0, and
  the error \<open>removeEdge\<close> raises is KeyError, not NotConnectedError.
\<close>

theorem removeEdge_error_counterexample:
  "0 \<notin> knob_edges (knobs demo_state 0) \<and>
   raised (removeEdge demo_state 0 0) = Some KeyError \<and>
   raised (removeEdge demo_state 0 0) \<noteq> Some NotConnectedError"
  by (simp add: removeEdge_def raised_def demo_state_edges)

text \<open>
  Claim C8. \<open>updatePath\<close> is idempotent: a second call, with nothing moved in between,
  leaves the Edge (its path with start, end and control points, and every other
  attribute) and the whole state as the first call left them. This holds for every
  Edge, whether its ends are bound to Knobs or free.
\<close>

theorem updatePath_idempotent:
  "updatePath (updatePath st e) e = updatePath st e \<and>
   edge_path (Edges (updatePath (updatePath st e) e) e) = edge_path (Edges (updatePath st e) e)"
proof -
  have kn: "knobs (updatePath st e) = knobs st" and nd: "nodes (updatePath st e) = nodes st"
    by simp_all
  have "updatePath (updatePath st e) e = updatePath st e"
    by (simp add: updatePath_def [of "updatePath st e"] Let_def updatePath_pos
          endpoint_cong [OF kn nd] endpoint_idem)
       (simp add: updatePath_def Let_def set_edge_def)
  then show ?thesis by simp
qed

text \<open>
  Claim C9. A Knob built by \<open>Knob.__init__\<close> or by \<open>InputKnob.__init__\<close> with the keyword
  \<open>margin\<close> has that value as its \<open>flow\<close>; when the value is neither of the two flow
  constants, \<open>paint\<close> raises UnknownFlowError. The Knob has 32-bit geometry, as every
  Knob of the model: with an \<open>x\<close>, \<open>y\<close>, \<open>w\<close> or \<open>h\<close> outside the 32-bit integers \<open>paint\<close>
  raises OverflowError in \<open>boundingRect()\<close>, before the flow is looked at.
\<close>

theorem flow_is_margin_keyword:
  "kw_margin kwargs = Some m \<Longrightarrow>
     knob_flow (Knob_init kwargs) = m \<and> knob_flow (InputKnob_init kwargs) = m \<and>
     (m \<noteq> FLOW_LEFT_TO_RIGHT \<and> m \<noteq> FLOW_RIGHT_TO_LEFT \<longrightarrow>
        snd (Knob_paint tw (Knob_init kwargs) painter) = Some UnknownFlowError \<and>
        snd (Knob_paint tw (InputKnob_init kwargs) painter) = Some UnknownFlowError)"
  by (simp add: Knob_init_def InputKnob_init_def kw_get_def Knob_paint_def Let_def)

theorem flow_is_margin_keyword_witness:
  "kw_margin (no_kwargs\<lparr>kw_margin := Some (PyInt 5)\<rparr>) = Some (PyInt 5) \<and>
   PyInt 5 \<noteq> FLOW_LEFT_TO_RIGHT \<and> PyInt 5 \<noteq> FLOW_RIGHT_TO_LEFT \<and>
   knob_flow (Knob_init (no_kwargs\<lparr>kw_margin := Some (PyInt 5)\<rparr>)) = PyInt 5 \<and>
   knob_flow (InputKnob_init (no_kwargs\<lparr>kw_margin := Some (PyInt 5)\<rparr>)) = PyInt 5 \<and>
   snd (Knob_paint tw7 (Knob_init (no_kwargs\<lparr>kw_margin := Some (PyInt 5)\<rparr>)) [])
     = Some UnknownFlowError \<and>
   snd (Knob_paint tw7 (InputKnob_init (no_kwargs\<lparr>kw_margin := Some (PyInt 5)\<rparr>)) [])
     = Some UnknownFlowError"
proof -
  have h: "kw_margin (no_kwargs\<lparr>kw_margin := Some (PyInt 5)\<rparr>) = Some (PyInt 5)"
    by simp
  have n: "PyInt 5 \<noteq> FLOW_LEFT_TO_RIGHT" "PyInt 5 \<noteq> FLOW_RIGHT_TO_LEFT"
    by (simp_all add: FLOW_LEFT_TO_RIGHT_def FLOW_RIGHT_TO_LEFT_def)
  show ?thesis
    using h n flow_is_margin_keyword [OF h, of tw7 "[]"] by blast
qed


text \<open>
  Claim C6. The thickness of an Edge is 1 times the global \<open>CURRENT_ZOOM\<close> read by
  \<open>Edge.__init__\<close>. When the global holds the scale of the view (as it does at the start
  and after every wheel event), one wheel step with \<open>delta \<ge> 0\<close> multiplies it by 1.1, an
  Edge built afterwards has thickness 1 times the previous zoom times 1.1, and every
  other Edge keeps its thickness, also through later calls of \<open>updatePath\<close>.
\<close>

theorem thickness_read_at_construction:
  assumes "view_m11 st = CURRENT_ZOOM st" and "0 \<le> delta"
  shows "edge_thickness (Edges (snd (new_Edge st)) (fst (new_Edge st))) = 1 * CURRENT_ZOOM st \<and>
         CURRENT_ZOOM (wheelEvent st delta) = CURRENT_ZOOM st * 1.1 \<and>
         edge_thickness (Edges (snd (new_Edge (wheelEvent st delta)))
                          (fst (new_Edge (wheelEvent st delta))))
           = 1 * CURRENT_ZOOM st * 1.1 \<and>
         (\<forall>e. e \<noteq> fst (new_Edge (wheelEvent st delta)) \<longrightarrow>
              edge_thickness (Edges (snd (new_Edge (wheelEvent st delta))) e)
                = edge_thickness (Edges st e)) \<and>
         (\<forall>e e'. edge_thickness (Edges (updatePath (snd (new_Edge (wheelEvent st delta))) e') e)
                = edge_thickness (Edges (snd (new_Edge (wheelEvent st delta))) e))"
  using assms
  by (simp add: wheelEvent_def Let_def zoomStep_def Edge_init_def)

theorem thickness_read_at_construction_witness:
  "view_m11 empty_state = CURRENT_ZOOM empty_state \<and> (0::int) \<le> 120 \<and>
   edge_thickness (Edges (snd (new_Edge empty_state)) (fst (new_Edge empty_state))) = 1 \<and>
   CURRENT_ZOOM (wheelEvent empty_state 120) = 1.1 \<and>
   edge_thickness (Edges (snd (new_Edge (wheelEvent empty_state 120)))
                    (fst (new_Edge (wheelEvent empty_state 120)))) = 1.1 \<and>
   edge_thickness (Edges (snd (new_Edge (wheelEvent empty_state 120))) 7)
     = edge_thickness (Edges empty_state 7)"
proof -
  have h: "view_m11 empty_state = CURRENT_ZOOM empty_state"
    by (simp add: empty_state_def)
  have d: "(0::int) \<le> 120" by simp
  have z: "CURRENT_ZOOM empty_state = 1"
    by (simp add: empty_state_def)
  have n: "(7::nat) \<noteq> fst (new_Edge (wheelEvent empty_state 120))"
    by (simp add: wheelEvent_def Let_def empty_state_def)
  show ?thesis
    using h d n thickness_read_at_construction [OF h d] by (simp add: z)
qed

text \<open>
  Claim C7. For an Edge with the curvature of \<open>Edge.__init__\<close>, \<open>updatePath\<close> sets the
  path to one cubic curve from the position \<open>p1\<close> of the first end to the position \<open>p2\<close>
  of the second, with control points \<open>(p1.x + 0.6 dx, p1.y + 0.2 dy)\<close> and
  \<open>(p1.x + 0.4 dx, p1.y + 0.8 dy)\<close>, where \<open>(dx, dy) = p2 - p1\<close>. The position of an end
  bound to a Knob is the centre of the Knob's bounding rectangle mapped to the scene.
  The Knobs have 32-bit geometry, as every Knob of the model: for an Edge bound to a
  Knob with an \<open>x\<close>, \<open>y\<close>, \<open>w\<close> or \<open>h\<close> outside the 32-bit integers \<open>updatePath\<close> raises
  OverflowError in \<open>boundingRect()\<close> and sets no path.
\<close>

theorem updatePath_cubic:
  assumes "init_curvature (Edges st e)"
  shows "edge_path (Edges (updatePath st e) e)
           = spec_curve (endpoint st (edge_knob1 (Edges st e)) (edge_pos1 (Edges st e)))
                        (endpoint st (edge_knob2 (Edges st e)) (edge_pos2 (Edges st e))) \<and>
         (\<forall>a. edge_knob1 (Edges st e) = Some a \<longrightarrow>
              endpoint st (edge_knob1 (Edges st e)) (edge_pos1 (Edges st e))
                = mapToScene st a (rect_center (Knob_boundingRect (knobs st a)))) \<and>
         (\<forall>b. edge_knob2 (Edges st e) = Some b \<longrightarrow>
              endpoint st (edge_knob2 (Edges st e)) (edge_pos2 (Edges st e))
                = mapToScene st b (rect_center (Knob_boundingRect (knobs st b))))"
proof -
  from assms have c:
    "edge_curv1 (Edges st e) = 0.6" "edge_curv2 (Edges st e) = 0.2"
    "edge_curv3 (Edges st e) = 0.4" "edge_curv4 (Edges st e) = 0.8"
    by (simp_all add: init_curvature_def)
  have path: "edge_path (Edges (updatePath st e) e)
           = spec_curve (endpoint st (edge_knob1 (Edges st e)) (edge_pos1 (Edges st e)))
                        (endpoint st (edge_knob2 (Edges st e)) (edge_pos2 (Edges st e)))"
    by (simp add: updatePath_def Let_def spec_curve_def c mult.commute)
  show ?thesis
    using path by (simp add: endpoint_def anchor_def)
qed

lemma Edge_init_curvature: "init_curvature (Edge_init zoom)"
  by (simp add: init_curvature_def Edge_init_def)

lemma updatePath_curvature:
  "init_curvature (Edges (updatePath st e) e') = init_curvature (Edges st e')"
  by (simp add: init_curvature_def)


lemma connectTo_frame:
  assumes "a \<noteq> b" and "Knob_in_scene st a" and "Knob_in_scene st b"
  shows "nodes (state_of (connectTo st a b)) = nodes st"
    and "knob_pos (knobs (state_of (connectTo st a b)) k) = knob_pos (knobs st k)"
    and "knob_parent (knobs (state_of (connectTo st a b)) k) = knob_parent (knobs st k)"
    and "Knob_boundingRect (knobs (state_of (connectTo st a b)) k) = Knob_boundingRect (knobs st k)"
    and "init_curvature (Edges (state_of (connectTo st a b)) (next_edge st))"
    and "edge_knob1 (Edges (state_of (connectTo st a b)) (next_edge st)) = Some a"
    and "edge_knob2 (Edges (state_of (connectTo st a b)) (next_edge st)) = Some b"
  using assms
  by (simp_all add: connectTo_def split_beta Let_def addEdge_in_scene bind_outcome_def
        state_of_def set_knob_edges_def Knob_boundingRect_def Knob_in_scene_def
        init_curvature_def Edge_init_def)

lemma connected_state_edge:
  "edge_knob1 (Edges connected_state 0) = Some 0"
  "edge_knob2 (Edges connected_state 0) = Some 1"
  "init_curvature (Edges connected_state 0)"
  using connectTo_frame(5,6,7) [of 0 1 demo_state] demo_state_in_scene
  by (simp_all add: connected_state_def demo_state_handler)

lemma connected_state_anchors:
  "anchor connected_state 0 = (53, 30)"
  "anchor connected_state (Suc 0) = (201, 130)"
proof -
  have ne: "(0::nat) \<noteq> 1" by simp
  note fr = connectTo_frame(1,2,3,4) [OF ne demo_state_in_scene, folded connected_state_def]
  show "anchor connected_state 0 = (53, 30)"
    by (simp add: anchor_def mapToScene_def Knob_scenePos_def fr)
       (simp add: fr scene_defs Knob_boundingRect_def rect_center_def rect_bottom_def c_div2_def
          point_add_def)
  show "anchor connected_state (Suc 0) = (201, 130)"
    by (simp add: anchor_def mapToScene_def Knob_scenePos_def fr)
       (simp add: fr scene_defs Knob_boundingRect_def rect_center_def rect_bottom_def c_div2_def
          point_add_def)
qed

theorem updatePath_cubic_witness:
  "init_curvature (Edges connected_state 0) \<and>
   edge_knob1 (Edges connected_state 0) = Some 0 \<and>
   edge_knob2 (Edges connected_state 0) = Some 1 \<and>
   edge_path (Edges (updatePath connected_state 0) 0)
     = [MoveTo (53, 30), CubicTo (141.8, 50) (112.2, 110) (201, 130)] \<and>
   mapToScene connected_state 0 (rect_center (Knob_boundingRect (knobs connected_state 0)))
     = (53, 30) \<and>
   mapToScene connected_state 1 (rect_center (Knob_boundingRect (knobs connected_state 1)))
     = (201, 130)"
proof -
  have h: "init_curvature (Edges connected_state 0)"
    by (rule connected_state_edge)
  have p: "endpoint connected_state (edge_knob1 (Edges connected_state 0))
             (edge_pos1 (Edges connected_state 0)) = (53, 30)"
          "endpoint connected_state (edge_knob2 (Edges connected_state 0))
             (edge_pos2 (Edges connected_state 0)) = (201, 130)"
    by (simp_all add: endpoint_def connected_state_edge connected_state_anchors)
  have a0: "mapToScene connected_state 0
              (rect_center (Knob_boundingRect (knobs connected_state 0))) = (53, 30)"
    using connected_state_anchors(1) by (simp add: anchor_def)
  have a1: "mapToScene connected_state 1
              (rect_center (Knob_boundingRect (knobs connected_state 1))) = (201, 130)"
    using connected_state_anchors(2) by (simp add: anchor_def)
  from updatePath_cubic [OF h]
  have "edge_path (Edges (updatePath connected_state 0) 0)
          = spec_curve (endpoint connected_state (edge_knob1 (Edges connected_state 0))
                          (edge_pos1 (Edges connected_state 0)))
                       (endpoint connected_state (edge_knob2 (Edges connected_state 0))
                          (edge_pos2 (Edges connected_state 0)))"
    by (rule conjunct1)
  then have path: "edge_path (Edges (updatePath connected_state 0) 0)
          = [MoveTo (53, 30), CubicTo (141.8, 50) (112.2, 110) (201, 130)]"
    by (simp add: p spec_curve_def)
  show ?thesis
    using h path a0 a1 connected_state_edge(1,2) by blast
qed

text \<open>
  Claim C2, as amended. Knobs \<open>a\<close> and \<open>b\<close> are two different Knobs of the scene. A press
  with the left button on \<open>a\<close>, any mouse moves, and a release on \<open>b\<close> return without an
  exception and leave the handler idle. Exactly one Edge object has been created; its
  ends are \<open>a\<close> and \<open>b\<close>; it has been added to the set of \<open>a\<close>, to the set of \<open>b\<close> and to
  the scene, and no other set and no other Edge has changed.
\<close>

theorem gesture_connects:
  assumes "a \<noteq> b" and "Knob_in_scene st a" and "Knob_in_scene st b"
    and "itemAt under_press = Some (KnobItem a)"
    and "itemAt under_release = Some (KnobItem b)"
  shows "\<exists>st'. run_events st
                 (mouse_event GraphicsSceneMousePress LeftButton p under_press
                  # mouse_moves ms
                  @ [mouse_event GraphicsSceneMouseRelease b1 q under_release]) = Inr st' \<and>
          Idle st' \<and>
          next_edge st' = Suc (next_edge st) \<and>
          edge_knob1 (Edges st' (next_edge st)) = Some a \<and>
          edge_knob2 (Edges st' (next_edge st)) = Some b \<and>
          knob_edges (knobs st' a) = insert (next_edge st) (knob_edges (knobs st a)) \<and>
          knob_edges (knobs st' b) = insert (next_edge st) (knob_edges (knobs st b)) \<and>
          (\<forall>k. k \<noteq> a \<and> k \<noteq> b \<longrightarrow> knob_edges (knobs st' k) = knob_edges (knobs st k)) \<and>
          scene_items st' = insert (EdgeItem (next_edge st)) (scene_items st) \<and>
          (\<forall>e. e \<noteq> next_edge st \<longrightarrow> Edges st' e = Edges st e)"
proof -
  from press_enters_drag [OF assms(2,4), of p]
  obtain st1 where p1: "eventFilter st (mouse_event GraphicsSceneMousePress LeftButton p under_press) = Inr st1"
    and d1: "DraggingConnection st a st1" by blast
  from moves_keep_drag [OF d1, of ms]
  obtain st2 where d2: "DraggingConnection st a st2"
    and r2: "\<forall>rest. run_events st1 (mouse_moves ms @ rest) = run_events st2 rest" by blast
  have ba: "b \<noteq> a" using assms(1) by simp
  from release_on_other_knob [OF d2 assms(5) ba assms(3), of b1 q]
  obtain st3 where r3: "eventFilter st2 (mouse_event GraphicsSceneMouseRelease b1 q under_release) = Inr st3"
    and post: "Idle st3"
      "knob_edges (knobs st3 a) = insert (next_edge st) (knob_edges (knobs st a))"
      "knob_edges (knobs st3 b) = insert (next_edge st) (knob_edges (knobs st b))"
      "\<forall>k. k \<noteq> a \<and> k \<noteq> b \<longrightarrow> knob_edges (knobs st3 k) = knob_edges (knobs st k)"
      "scene_items st3 = insert (EdgeItem (next_edge st)) (scene_items st)"
      "edge_knob1 (Edges st3 (next_edge st)) = Some a"
      "edge_knob2 (Edges st3 (next_edge st)) = Some b"
      "\<forall>e. e \<noteq> next_edge st \<longrightarrow> Edges st3 e = Edges st e"
      "next_edge st3 = Suc (next_edge st)" by blast
  have run: "run_events st
                 (mouse_event GraphicsSceneMousePress LeftButton p under_press
                  # mouse_moves ms
                  @ [mouse_event GraphicsSceneMouseRelease b1 q under_release]) = Inr st3"
    using p1 r2 r3 by (simp add: bind_outcome_def)
  show ?thesis
    using run post by blast
qed

theorem gesture_connects_witness:
  "(0::nat) \<noteq> 1 \<and> Knob_in_scene demo_state 0 \<and> Knob_in_scene demo_state 1 \<and>
   itemAt [KnobItem 0, NodeItem 0] = Some (KnobItem 0) \<and>
   itemAt [KnobItem 1, NodeItem 1] = Some (KnobItem 1) \<and>
   (\<exists>st'. run_events demo_state
            (mouse_event GraphicsSceneMousePress LeftButton (53, 30) [KnobItem 0, NodeItem 0]
             # mouse_moves [(NoButton, (120, 80), [EdgeItem 0])]
             @ [mouse_event GraphicsSceneMouseRelease LeftButton (201, 130)
                  [KnobItem 1, NodeItem 1]]) = Inr st' \<and>
          Idle st' \<and>
          next_edge st' = Suc (next_edge demo_state) \<and>
          edge_knob1 (Edges st' (next_edge demo_state)) = Some 0 \<and>
          edge_knob2 (Edges st' (next_edge demo_state)) = Some 1 \<and>
          knob_edges (knobs st' 0) = insert (next_edge demo_state) (knob_edges (knobs demo_state 0)) \<and>
          knob_edges (knobs st' 1) = insert (next_edge demo_state) (knob_edges (knobs demo_state 1)) \<and>
          (\<forall>k. k \<noteq> 0 \<and> k \<noteq> 1 \<longrightarrow> knob_edges (knobs st' k) = knob_edges (knobs demo_state k)) \<and>
          scene_items st' = insert (EdgeItem (next_edge demo_state)) (scene_items demo_state) \<and>
          (\<forall>e. e \<noteq> next_edge demo_state \<longrightarrow> Edges st' e = Edges demo_state e))"
proof -
  have h1: "(0::nat) \<noteq> 1" by simp
  have h4: "itemAt [KnobItem 0, NodeItem 0] = Some (KnobItem 0)"
    by (simp add: itemAt_def)
  have h5: "itemAt [KnobItem 1, NodeItem 1] = Some (KnobItem 1)"
    by (simp add: itemAt_def)
  show ?thesis
    using h1 demo_state_in_scene h4 h5
      gesture_connects [OF h1 demo_state_in_scene h4 h5,
        of "(53, 30)" "[(NoButton, (120, 80), [EdgeItem 0])]" LeftButton "(201, 130)"]
    by blast
qed

text \<open>
  Claim C2 as stated fails for a press with another button: the handler creates an Edge
  for the left button only. In the small scene a press with the right button on Knob 0
  and a release on Knob 1 leave the state as it was, with no Edge in either set.
\<close>

theorem gesture_connects_counterexample:
  "(0::nat) \<noteq> 1 \<and> Knob_in_scene demo_state 0 \<and> Knob_in_scene demo_state 1 \<and>
   Idle demo_state \<and>
   itemAt [KnobItem 0, NodeItem 0] = Some (KnobItem 0) \<and>
   itemAt [KnobItem 1, NodeItem 1] = Some (KnobItem 1) \<and>
   run_events demo_state
     [mouse_event GraphicsSceneMousePress RightButton (53, 30) [KnobItem 0, NodeItem 0],
      mouse_event GraphicsSceneMouseRelease RightButton (201, 130) [KnobItem 1, NodeItem 1]]
     = Inr demo_state \<and>
   knob_edges (knobs demo_state 0) = {} \<and> knob_edges (knobs demo_state 1) = {}"
  using demo_state_in_scene demo_state_Idle
  by (simp add: press_other_button idle_release bind_outcome_def demo_state_edges itemAt_def)

text \<open>
  Claim C3. \<open>connectTo\<close> with the Knob itself returns at once: the state, and with it the
  Knob's set \<open>edges\<close>, is unchanged and no Edge is created. And for a Knob \<open>s\<close> of the scene
  and an idle handler, a press on \<open>s\<close> (with any button), any mouse moves, and a release on
  \<open>s\<close> return without an exception, leave the handler idle, and leave every Knob's set
  and the items of the scene as they were. (The Edge object that a left press creates
  is new: it is neither in the set of \<open>s\<close> nor in the scene before the press.)
\<close>

theorem self_connection_changes_nothing:
  assumes "Idle st" and "Knob_in_scene st s"
    and "itemAt under_press = Some (KnobItem s)"
    and "itemAt under_release = Some (KnobItem s)"
    and "next_edge st \<notin> knob_edges (knobs st s)"
    and "EdgeItem (next_edge st) \<notin> scene_items st"
  shows "connectTo st s s = Inr st \<and>
         (\<exists>st'. run_events st
                 (mouse_event GraphicsSceneMousePress b0 p under_press
                  # mouse_moves ms
                  @ [mouse_event GraphicsSceneMouseRelease b1 q under_release]) = Inr st' \<and>
          Idle st' \<and>
          knob_edges (knobs st' s) = knob_edges (knobs st s) \<and>
          (\<forall>k. knob_edges (knobs st' k) = knob_edges (knobs st k)) \<and>
          scene_items st' = scene_items st)"
proof -
  have c: "connectTo st s s = Inr st"
    by (simp add: connectTo_def)
  have r: "itemAt under_release = Some (KnobItem s) \<or> \<not> isinstance_Knob (itemAt under_release)"
    using assms(4) by simp
  from gesture_cancelled [OF assms(1,2,3) r assms(5,6), of b0 p ms b1 q]
  show ?thesis using c by blast
qed

theorem self_connection_changes_nothing_witness:
  "Idle demo_state \<and> Knob_in_scene demo_state 0 \<and>
   itemAt [KnobItem 0, NodeItem 0] = Some (KnobItem 0) \<and>
   next_edge demo_state \<notin> knob_edges (knobs demo_state 0) \<and>
   EdgeItem (next_edge demo_state) \<notin> scene_items demo_state \<and>
   connectTo demo_state 0 0 = Inr demo_state \<and>
   (\<exists>st'. run_events demo_state
            (mouse_event GraphicsSceneMousePress LeftButton (53, 30) [KnobItem 0, NodeItem 0]
             # mouse_moves [(NoButton, (55, 31), [EdgeItem 0, KnobItem 0])]
             @ [mouse_event GraphicsSceneMouseRelease LeftButton (53, 30)
                  [KnobItem 0, NodeItem 0]]) = Inr st' \<and>
          Idle st' \<and>
          knob_edges (knobs st' 0) = knob_edges (knobs demo_state 0) \<and>
          (\<forall>k. knob_edges (knobs st' k) = knob_edges (knobs demo_state k)) \<and>
          scene_items st' = scene_items demo_state)"
proof -
  have h3: "itemAt [KnobItem 0, NodeItem 0] = Some (KnobItem 0)"
    by (simp add: itemAt_def)
  have h5: "next_edge demo_state \<notin> knob_edges (knobs demo_state 0)"
    by (simp add: demo_state_edges)
  have h6: "EdgeItem (next_edge demo_state) \<notin> scene_items demo_state"
    by (simp add: demo_state_scene)
  show ?thesis
    using demo_state_Idle demo_state_in_scene(1) h3 h5 h6
      self_connection_changes_nothing [OF demo_state_Idle demo_state_in_scene(1) h3 h3 h5 h6,
        of LeftButton "(53, 30)" "[(NoButton, (55, 31), [EdgeItem 0, KnobItem 0])]"
           LeftButton "(53, 30)"]
    by blast
qed

text \<open>
  Claim C4. For a Knob \<open>a\<close> of the scene and an idle handler, a press on \<open>a\<close> (with any
  button), any mouse moves, and a release where \<open>itemAt\<close> finds no item or an item that
  is not a Knob return without an exception and leave the handler idle; the draft Edge
  is taken out of the set of \<open>a\<close> and out of the scene, so that every Knob's set and the
  items of the scene are as before the press. (The Edge object that a left press creates
  is new: it is neither in the set of \<open>a\<close> nor in the scene before the press.)
\<close>

theorem gesture_cancel_restores:
  assumes "Idle st" and "Knob_in_scene st a"
    and "itemAt under_press = Some (KnobItem a)"
    and "\<not> isinstance_Knob (itemAt under_release)"
    and "next_edge st \<notin> knob_edges (knobs st a)"
    and "EdgeItem (next_edge st) \<notin> scene_items st"
  shows "\<exists>st'. run_events st
                 (mouse_event GraphicsSceneMousePress b0 p under_press
                  # mouse_moves ms
                  @ [mouse_event GraphicsSceneMouseRelease b1 q under_release]) = Inr st' \<and>
          Idle st' \<and>
          knob_edges (knobs st' a) = knob_edges (knobs st a) \<and>
          next_edge st \<notin> knob_edges (knobs st' a) \<and>
          EdgeItem (next_edge st) \<notin> scene_items st' \<and>
          (\<forall>k. knob_edges (knobs st' k) = knob_edges (knobs st k)) \<and>
          scene_items st' = scene_items st"
proof -
  have r: "itemAt under_release = Some (KnobItem a) \<or> \<not> isinstance_Knob (itemAt under_release)"
    using assms(4) by simp
  from gesture_cancelled [OF assms(1,2,3) r assms(5,6), of b0 p ms b1 q]
  obtain st' where run: "run_events st
                 (mouse_event GraphicsSceneMousePress b0 p under_press
                  # mouse_moves ms
                  @ [mouse_event GraphicsSceneMouseRelease b1 q under_release]) = Inr st'"
    and post: "Idle st'" "\<forall>k. knob_edges (knobs st' k) = knob_edges (knobs st k)"
      "scene_items st' = scene_items st" by blast
  show ?thesis
    using run post assms(5,6) by simp
qed

theorem gesture_cancel_restores_witness:
  "Idle demo_state \<and> Knob_in_scene demo_state 0 \<and>
   itemAt [KnobItem 0, NodeItem 0] = Some (KnobItem 0) \<and>
   \<not> isinstance_Knob (itemAt [EdgeItem 0]) \<and>
   next_edge demo_state \<notin> knob_edges (knobs demo_state 0) \<and>
   EdgeItem (next_edge demo_state) \<notin> scene_items demo_state \<and>
   (\<exists>st'. run_events demo_state
            (mouse_event GraphicsSceneMousePress LeftButton (53, 30) [KnobItem 0, NodeItem 0]
             # mouse_moves [(NoButton, (120, 300), [EdgeItem 0])]
             @ [mouse_event GraphicsSceneMouseRelease LeftButton (120, 300) [EdgeItem 0]])
            = Inr st' \<and>
          Idle st' \<and>
          knob_edges (knobs st' 0) = knob_edges (knobs demo_state 0) \<and>
          next_edge demo_state \<notin> knob_edges (knobs st' 0) \<and>
          EdgeItem (next_edge demo_state) \<notin> scene_items st' \<and>
          (\<forall>k. knob_edges (knobs st' k) = knob_edges (knobs demo_state k)) \<and>
          scene_items st' = scene_items demo_state)"
proof -
  have h3: "itemAt [KnobItem 0, NodeItem 0] = Some (KnobItem 0)"
    by (simp add: itemAt_def)
  have h4: "\<not> isinstance_Knob (itemAt [EdgeItem 0])"
    by (simp add: itemAt_def)
  have h5: "next_edge demo_state \<notin> knob_edges (knobs demo_state 0)"
    by (simp add: demo_state_edges)
  have h6: "EdgeItem (next_edge demo_state) \<notin> scene_items demo_state"
    by (simp add: demo_state_scene)
  show ?thesis
    using demo_state_Idle demo_state_in_scene(1) h3 h4 h5 h6
      gesture_cancel_restores [OF demo_state_Idle demo_state_in_scene(1) h3 h4 h5 h6,
        of LeftButton "(53, 30)" "[(NoButton, (120, 300), [EdgeItem 0])]"
           LeftButton "(120, 300)"]
    by blast
qed





section \<open>Layout\<close>

lemma fold_max_Max: "fold max xs (a::int) = Max (insert a (set xs))"
  using Max.set_eq_fold [of a xs] by simp

lemma knob_children_mem: "KnobChild k \<in> set cs \<Longrightarrow> k \<in> set (knob_children cs)"
  by (induction cs rule: knob_children.induct) auto

lemma knobWidths_cong:
  assumes "\<And>k. knob_w (knobs st' k) = knob_w (knobs st k)"
    and "\<And>k. knob_labelText (knobs st' k) = knob_labelText (knobs st k)"
    and "node_childItems (nodes st' n) = node_childItems (nodes st n)"
    and "node_margin (nodes st' n) = node_margin (nodes st n)"
  shows "knobWidths tw st' n = knobWidths tw st n"
  using assms by (simp add: knobWidths_def)

text \<open>The width that \<open>adjustWidth\<close> computes, with the maximum written as \<open>Max\<close>.\<close>

lemma width_fits_Max:
  assumes "node_w (nodes st n) =
             Max (insert (node_margin (nodes st n) + tw (header_text (headers st hdr)))
                    (set (knobWidths tw st n))) + node_margin (nodes st n)"
  shows "width_fits tw st n hdr"
proof -
  let ?S = "insert (node_margin (nodes st n) + tw (header_text (headers st hdr)))
              (set (knobWidths tw st n))"
  have fin: "finite ?S" by simp
  have title: "node_margin (nodes st n) + tw (header_text (headers st hdr)) \<le> Max ?S"
    by (rule Max_ge [OF fin]) simp
  have sock: "sint (knob_w (knobs st k)) + node_margin (nodes st n)
                + tw (knob_labelText (knobs st k)) \<le> Max ?S"
    if "k \<in> set (knob_children (node_childItems (nodes st n)))" for k
  proof (rule Max_ge [OF fin])
    show "sint (knob_w (knobs st k)) + node_margin (nodes st n)
            + tw (knob_labelText (knobs st k)) \<in> ?S"
      using that by (auto simp add: knobWidths_def)
  qed
  show ?thesis
    unfolding width_fits_def Let_def
  proof (intro conjI ballI)
    show "node_w (nodes st n) = Max ?S + node_margin (nodes st n)"
      by (rule assms)
    show "node_margin (nodes st n) + tw (header_text (headers st hdr)) + node_margin (nodes st n)
            \<le> node_w (nodes st n)"
      using assms title by linarith
    fix k
    assume "k \<in> set (knob_children (node_childItems (nodes st n)))"
    from sock [OF this]
    show "sint (knob_w (knobs st k)) + node_margin (nodes st n)
            + tw (knob_labelText (knobs st k)) + node_margin (nodes st n) \<le> node_w (nodes st n)"
      using assms by linarith
  qed
qed

lemma updateSize_result:
  assumes "node_header (nodes st n) = Some hdr"
  shows "\<exists>st'. updateSizeForChildren tw st n = Inr st' \<and>
           knobs st' = knobs st \<and> headers st' = headers st \<and>
           node_header (nodes st' n) = Some hdr \<and>
           node_childItems (nodes st' n) = node_childItems (nodes st n) \<and>
           width_fits tw st' n hdr"
proof -
  define st' where "st' = adjustHeight (adjustWidth tw st n hdr) n hdr"
  have r: "updateSizeForChildren tw st n = Inr st'"
    using assms by (simp add: updateSizeForChildren_def st'_def)
  have fr: "knobs st' = knobs st" "headers st' = headers st"
    "node_header (nodes st' n) = Some hdr"
    "node_childItems (nodes st' n) = node_childItems (nodes st n)"
    "node_margin (nodes st' n) = node_margin (nodes st n)"
    using assms by (simp_all add: st'_def adjustWidth_def adjustHeight_def Let_def)
  have kw: "knobWidths tw st' n = knobWidths tw st n"
    by (rule knobWidths_cong) (simp_all add: fr)
  have w: "node_w (nodes st' n) =
             Max (insert (node_margin (nodes st n) + tw (header_text (headers st hdr)))
                    (set (knobWidths tw st n))) + node_margin (nodes st n)"
    by (simp add: st'_def adjustWidth_def adjustHeight_def Let_def fold_max_Max)
  have "width_fits tw st' n hdr"
    by (rule width_fits_Max) (simp add: w kw fr)
  then show ?thesis using r fr by simp
qed

lemma set_childItems_fields [simp]:
  "knobs (set_childItems st m cs) = knobs st"
  "headers (set_childItems st m cs) = headers st"
  "scene_items (set_childItems st m cs) = scene_items st"
  "node_header (nodes (set_childItems st m cs) n) = node_header (nodes st n)"
  "node_margin (nodes (set_childItems st m cs) n) = node_margin (nodes st n)"
  "node_childItems (nodes (set_childItems st m cs) n) =
     (if n = m then cs else node_childItems (nodes st n))"
  by (simp_all add: set_childItems_def)

lemma set_item_parent_fields [simp]:
  "nodes (set_item_parent st c m) = nodes st"
  "scene_items (set_item_parent st c m) = scene_items st"
  "header_text (headers (set_item_parent st c m) h) = header_text (headers st h)"
  "knob_w (knobs (set_item_parent st c m) k) = knob_w (knobs st k)"
  "knob_labelText (knobs (set_item_parent st c m) k) = knob_labelText (knobs st k)"
  "knob_flow (knobs (set_item_parent st c m) k) = knob_flow (knobs st k)"
  by (simp_all add: set_item_parent_def split: child.splits)

lemma setParentItem_fields [simp]:
  "node_header (nodes (setParentItem st c m) n) = node_header (nodes st n)"
  "node_margin (nodes (setParentItem st c m) n) = node_margin (nodes st n)"
  "header_text (headers (setParentItem st c m) h) = header_text (headers st h)"
  "knob_w (knobs (setParentItem st c m) k) = knob_w (knobs st k)"
  "knob_labelText (knobs (setParentItem st c m) k) = knob_labelText (knobs st k)"
  "knob_flow (knobs (setParentItem st c m) k) = knob_flow (knobs st k)"
  by (simp_all add: setParentItem_def Let_def split: option.splits)

lemma setParentItem_child:
  "item_parent st c \<noteq> Some n \<Longrightarrow> c \<in> set (node_childItems (nodes (setParentItem st c n) n))"
  by (simp add: setParentItem_def Let_def split: option.splits)

lemma addHeader_width:
  "\<exists>st'. addHeader tw st n hdr = Inr st' \<and> node_header (nodes st' n) = Some hdr \<and>
         width_fits tw st' n hdr"
proof -
  define st3 where "st3 = setParentItem
      (st\<lparr>nodes := (nodes st)(n := (nodes st n)\<lparr>node_header := Some hdr\<rparr>),
          headers := (headers st)(hdr := (headers st hdr)\<lparr>header_pos := node_pos (nodes st n)\<rparr>)\<rparr>)
      (HeaderChild hdr) n"
  have h: "node_header (nodes st3 n) = Some hdr"
    by (simp add: st3_def)
  have "addHeader tw st n hdr = updateSizeForChildren tw st3 n"
    by (simp add: addHeader_def Let_def st3_def)
  then show ?thesis
    using updateSize_result [OF h, of tw] by auto
qed

lemma Knob_setPos_fields [simp]:
  "nodes (Knob_setPos st k p) = nodes st"
  "headers (Knob_setPos st k p) = headers st"
  "knob_w (knobs (Knob_setPos st k p) k') = knob_w (knobs st k')"
  "knob_labelText (knobs (Knob_setPos st k p) k') = knob_labelText (knobs st k')"
  "knob_flow (knobs (Knob_setPos st k p) k') = knob_flow (knobs st k')"
  by (simp_all add: Knob_setPos_def)

lemma knobWidths_setPos: "knobWidths tw (Knob_setPos st k p) n = knobWidths tw st n"
  by (rule knobWidths_cong) simp_all

lemma width_fits_setPos: "width_fits tw (Knob_setPos st k p) n hdr = width_fits tw st n hdr"
  by (simp add: width_fits_def Let_def knobWidths_setPos)

lemma updateSize_frame:
  assumes "updateSizeForChildren tw st n = Inr st'"
  shows "knobs st' = knobs st" and "headers st' = headers st"
    and "node_x (nodes st' n) = node_x (nodes st n)"
    and "node_y (nodes st' n) = node_y (nodes st n)"
    and "node_margin (nodes st' n) = node_margin (nodes st n)"
  using assms
  by (auto simp add: updateSizeForChildren_def adjustWidth_def adjustHeight_def Let_def
        split: option.splits)

text \<open>
  \<open>addKnob\<close> on a Node with its header, in three steps: the relayout, which always
  returns; the bounding rectangle, which may raise; the position, which may raise.
\<close>

lemma addKnob_steps:
  assumes "node_header (nodes st n) = Some hdr"
  shows "\<exists>st3. width_fits tw st3 n hdr \<and> node_header (nodes st3 n) = Some hdr \<and>
           (knob_parent (knobs st k) \<noteq> Some n \<longrightarrow>
              k \<in> set (knob_children (node_childItems (nodes st3 n)))) \<and>
           node_margin (nodes st3 n) = node_margin (nodes st n) \<and>
           addKnob tw st n k =
             (case Node_boundingRect st3 n of
                Inl err \<Rightarrow> Inl (err, st3)
              | Inr bbox \<Rightarrow>
                  if knob_class (knobs st3 k) = OutputKnob then
                    Knob_setPos_int st3 k
                      (rect_right bbox - sint (knob_w (knobs st3 k)) + node_margin (nodes st n) div 2)
                      (children_yOffset st n)
                  else if knob_class (knobs st3 k) = InputKnob then
                    Knob_setPos_int st3 k (rect_left bbox - node_margin (nodes st n) div 2)
                      (children_yOffset st n)
                  else Inr st3)"
proof -
  define st1 where "st1 = setParentItem st (KnobChild k) n"
  define st2 where "st2 = st1\<lparr>knobs :=
       (knobs st1)(k := (knobs st1 k)\<lparr>knob_margin := PyInt (node_margin (nodes st1 n))\<rparr>)\<rparr>"
  have h: "node_header (nodes st2 n) = Some hdr"
    using assms by (simp add: st2_def st1_def)
  from updateSize_result [OF h, of tw] obtain st3 where
    u: "updateSizeForChildren tw st2 n = Inr st3" and
    hd3: "node_header (nodes st3 n) = Some hdr" and
    ch3: "node_childItems (nodes st3 n) = node_childItems (nodes st2 n)" and
    lo3: "width_fits tw st3 n hdr" by blast
  have mem: "knob_parent (knobs st k) \<noteq> Some n \<longrightarrow>
             k \<in> set (knob_children (node_childItems (nodes st3 n)))"
    using setParentItem_child [of st "KnobChild k" n]
    by (auto simp add: ch3 st2_def st1_def item_parent_def intro: knob_children_mem)
  have mg: "node_margin (nodes st3 n) = node_margin (nodes st n)"
    using updateSize_frame(5) [OF u] by (simp add: st2_def st1_def)
  have "addKnob tw st n k =
             (case Node_boundingRect st3 n of
                Inl err \<Rightarrow> Inl (err, st3)
              | Inr bbox \<Rightarrow>
                  if knob_class (knobs st3 k) = OutputKnob then
                    Knob_setPos_int st3 k
                      (rect_right bbox - sint (knob_w (knobs st3 k)) + node_margin (nodes st n) div 2)
                      (children_yOffset st n)
                  else if knob_class (knobs st3 k) = InputKnob then
                    Knob_setPos_int st3 k (rect_left bbox - node_margin (nodes st n) div 2)
                      (children_yOffset st n)
                  else Inr st3)"
    using u
    by (simp add: addKnob_def Let_def st2_def [symmetric] st1_def [symmetric] bind_outcome_def)
  then show ?thesis
    using lo3 hd3 mem mg by blast
qed

lemma state_of_simps:
  "state_of (Inr st) = st" "state_of (Inl (err, st)) = st"
  by (simp_all add: state_of_def)

lemma raised_simps:
  "raised (Inr st) = None" "raised (Inl (err, st)) = Some err"
  by (simp_all add: raised_def)

lemma state_of_setPos_int:
  "state_of (Knob_setPos_int st k x y) = st \<or>
   state_of (Knob_setPos_int st k x y) = Knob_setPos st k (of_int x, of_int y)"
  by (simp add: Knob_setPos_int_def state_of_def)

lemma setPos_int_returns:
  "fits_double x \<Longrightarrow> fits_double y \<Longrightarrow> raised (Knob_setPos_int st k x y) = None"
  by (simp add: Knob_setPos_int_def raised_def)

lemma Knob_setPos_children [simp]:
  "node_childItems (nodes (Knob_setPos st k p) n) = node_childItems (nodes st n)"
  by (simp add: Knob_setPos_def)

text \<open>The state \<open>addKnob\<close> leaves, whether it returns or raises, has the new width.\<close>

lemma addKnob_width:
  assumes "node_header (nodes st n) = Some hdr"
  shows "width_fits tw (state_of (addKnob tw st n k)) n hdr \<and>
         node_header (nodes (state_of (addKnob tw st n k)) n) = Some hdr \<and>
         (knob_parent (knobs st k) \<noteq> Some n \<longrightarrow>
            k \<in> set (knob_children (node_childItems (nodes (state_of (addKnob tw st n k)) n))))"
proof -
  from addKnob_steps [OF assms, of tw k] obtain st3 where
    lo3: "width_fits tw st3 n hdr" and hd3: "node_header (nodes st3 n) = Some hdr" and
    mem: "knob_parent (knobs st k) \<noteq> Some n \<longrightarrow>
            k \<in> set (knob_children (node_childItems (nodes st3 n)))" and
    eq: "addKnob tw st n k =
             (case Node_boundingRect st3 n of
                Inl err \<Rightarrow> Inl (err, st3)
              | Inr bbox \<Rightarrow>
                  if knob_class (knobs st3 k) = OutputKnob then
                    Knob_setPos_int st3 k
                      (rect_right bbox - sint (knob_w (knobs st3 k)) + node_margin (nodes st n) div 2)
                      (children_yOffset st n)
                  else if knob_class (knobs st3 k) = InputKnob then
                    Knob_setPos_int st3 k (rect_left bbox - node_margin (nodes st n) div 2)
                      (children_yOffset st n)
                  else Inr st3)" by blast
  have "state_of (addKnob tw st n k) = st3 \<or>
        (\<exists>p. state_of (addKnob tw st n k) = Knob_setPos st3 k p)"
  proof (cases "Node_boundingRect st3 n")
    case (Inl err)
    then show ?thesis by (simp add: eq state_of_simps)
  next
    case (Inr bbox)
    show ?thesis
      using state_of_setPos_int [of st3 k
              "rect_right bbox - sint (knob_w (knobs st3 k)) + node_margin (nodes st n) div 2"
              "children_yOffset st n"]
            state_of_setPos_int [of st3 k "rect_left bbox - node_margin (nodes st n) div 2"
              "children_yOffset st n"]
      by (auto simp add: eq Inr state_of_simps)
  qed
  then show ?thesis
    using lo3 hd3 mem by (auto simp add: width_fits_setPos)
qed

text \<open>
  \<open>addKnob\<close> returns when the rectangle of the Node fits the 32-bit integers and the
  position fits a double.
\<close>

lemma addKnob_returns:
  assumes "node_header (nodes st n) = Some hdr"
    and "fits_int32 (node_x (nodes (state_of (addKnob tw st n k)) n))"
    and "fits_int32 (node_y (nodes (state_of (addKnob tw st n k)) n))"
    and "fits_int32 (node_w (nodes (state_of (addKnob tw st n k)) n))"
    and "fits_int32 (header_h (headers (state_of (addKnob tw st n k)) hdr))"
    and "\<bar>node_margin (nodes st n)\<bar> < 2 ^ 1000"
    and "\<bar>children_yOffset st n\<bar> < 2 ^ 1000"
  shows "raised (addKnob tw st n k) = None"
proof -
  from addKnob_steps [OF assms(1), of tw k] obtain st3 where
    hd3: "node_header (nodes st3 n) = Some hdr" and
    eq: "addKnob tw st n k =
             (case Node_boundingRect st3 n of
                Inl err \<Rightarrow> Inl (err, st3)
              | Inr bbox \<Rightarrow>
                  if knob_class (knobs st3 k) = OutputKnob then
                    Knob_setPos_int st3 k
                      (rect_right bbox - sint (knob_w (knobs st3 k)) + node_margin (nodes st n) div 2)
                      (children_yOffset st n)
                  else if knob_class (knobs st3 k) = InputKnob then
                    Knob_setPos_int st3 k (rect_left bbox - node_margin (nodes st n) div 2)
                      (children_yOffset st n)
                  else Inr st3)" by blast
  have "state_of (addKnob tw st n k) = st3 \<or>
        (\<exists>p. state_of (addKnob tw st n k) = Knob_setPos st3 k p)"
  proof (cases "Node_boundingRect st3 n")
    case (Inl err)
    then show ?thesis by (simp add: eq state_of_simps)
  next
    case (Inr bbox)
    show ?thesis
      using state_of_setPos_int [of st3 k
              "rect_right bbox - sint (knob_w (knobs st3 k)) + node_margin (nodes st n) div 2"
              "children_yOffset st n"]
            state_of_setPos_int [of st3 k "rect_left bbox - node_margin (nodes st n) div 2"
              "children_yOffset st n"]
      by (auto simp add: eq Inr state_of_simps)
  qed
  then have same: "nodes (state_of (addKnob tw st n k)) = nodes st3"
             "headers (state_of (addKnob tw st n k)) = headers st3"
    by auto
  have fit: "fits_int32 (node_x (nodes st3 n))" "fits_int32 (node_y (nodes st3 n))"
    "fits_int32 (node_w (nodes st3 n))" "fits_int32 (header_h (headers st3 hdr))"
    using assms(2-5) by (simp_all add: same)
  then obtain bbox where bbox: "Node_boundingRect st3 n = Inr bbox"
    by (simp add: Node_boundingRect_def hd3 QRect_init_def)
  define B where "B = (2::int) ^ 31"
  define M where "M = (2::int) ^ 1000"
  define L where "L = (2::int) ^ 1024 - 2 ^ 970"
  have big: "B + B + M < L"
    by (simp add: B_def M_def L_def)
  have half: "\<bar>node_margin (nodes st n) div 2\<bar> \<le> \<bar>node_margin (nodes st n)\<bar>"
    by (cases "0 \<le> node_margin (nodes st n)") (auto simp add: abs_if)
  have r: "- B \<le> rect_right bbox \<and> rect_right bbox < B"
          "- B \<le> rect_left bbox \<and> rect_left bbox < B"
          "- B \<le> sint (knob_w (knobs st3 k)) \<and> sint (knob_w (knobs st3 k)) < B"
    using sint_ge [where 'a = 32] sint_lt [where 'a = 32]
    by (simp_all add: rect_right_def rect_left_def B_def)
  have mg: "\<bar>node_margin (nodes st n)\<bar> < M" and yo: "\<bar>children_yOffset st n\<bar> < M"
    using assms(6,7) by (simp_all add: M_def)
  have "\<bar>rect_right bbox - sint (knob_w (knobs st3 k)) + node_margin (nodes st n) div 2\<bar> < L"
    using big half r mg by linarith
  then have fx1: "fits_double (rect_right bbox - sint (knob_w (knobs st3 k))
                     + node_margin (nodes st n) div 2)"
    by (simp add: fits_double_def L_def)
  have "\<bar>rect_left bbox - node_margin (nodes st n) div 2\<bar> < L"
    using big half r mg by linarith
  then have fx2: "fits_double (rect_left bbox - node_margin (nodes st n) div 2)"
    by (simp add: fits_double_def L_def)
  have "0 \<le> B" by (simp add: B_def)
  then have "\<bar>children_yOffset st n\<bar> < L"
    using big yo by linarith
  then have fy: "fits_double (children_yOffset st n)"
    by (simp add: fits_double_def L_def)
  show ?thesis
    by (simp add: eq bbox setPos_int_returns fx1 fx2 fy raised_simps)
qed

text \<open>The flow of a Knob is left alone by \<open>addKnob\<close>: only the margin is assigned.\<close>

lemma addKnob_keeps_flow:
  "knob_flow (knobs (state_of (addKnob tw st n k)) k') = knob_flow (knobs st k')"
  by (simp add: addKnob_def Let_def state_of_def bind_outcome_def updateSizeForChildren_def
        adjustWidth_def adjustHeight_def Node_boundingRect_def Knob_setPos_def
        Knob_setPos_int_def split: option.splits sum.splits)

text \<open>
  Claim C1, as amended. \<open>addHeader\<close> always returns. \<open>addKnob\<close> on a Node that has its
  Header recomputes the width before anything can fail: it returns, or it raises
  OverflowError afterwards (the rectangle of the Node does not fit the 32-bit integers of
  \<open>QRect\<close>, or the position does not fit a double), and it returns when these values
  fit. In the state each call leaves, the width of the Node is
  \<open>max(margin + titleWidth, max over the Node's Knobs of (knob.w + margin + labelWidth))
  + margin\<close>. So the width is at least \<open>margin + titleWidth + margin\<close> and at least
  \<open>knob.w + margin + labelWidth + margin\<close> for every Knob of the Node: there is no margin
  before a Knob. A Knob that did not have this Node as its parent is among the Node's
  Knobs afterwards.
\<close>

theorem relayout_width:
  "(\<exists>st'. addHeader tw st n hdr = Inr st' \<and> width_fits tw st' n hdr) \<and>
   (node_header (nodes st n) = Some hdr \<longrightarrow>
      width_fits tw (state_of (addKnob tw st n k)) n hdr \<and>
      (knob_parent (knobs st k) \<noteq> Some n \<longrightarrow>
         k \<in> set (knob_children (node_childItems (nodes (state_of (addKnob tw st n k)) n)))) \<and>
      (fits_int32 (node_x (nodes (state_of (addKnob tw st n k)) n)) \<and>
       fits_int32 (node_y (nodes (state_of (addKnob tw st n k)) n)) \<and>
       fits_int32 (node_w (nodes (state_of (addKnob tw st n k)) n)) \<and>
       fits_int32 (header_h (headers (state_of (addKnob tw st n k)) hdr)) \<and>
       \<bar>node_margin (nodes st n)\<bar> < 2 ^ 1000 \<and>
       \<bar>children_yOffset st n\<bar> < 2 ^ 1000 \<longrightarrow>
         addKnob tw st n k = Inr (state_of (addKnob tw st n k))))"
proof -
  have ret: "addKnob tw st n k = Inr (state_of (addKnob tw st n k))"
    if "raised (addKnob tw st n k) = None"
    using that by (cases "addKnob tw st n k") (auto simp add: raised_def state_of_def)
  show ?thesis
    using addHeader_width [of tw st n hdr] addKnob_width [of st n hdr tw k]
      addKnob_returns [of st n hdr tw k] ret
    by blast
qed

theorem relayout_width_witness:
  "node_header (nodes (state_of (addHeader tw7 two_nodes 0 0)) 0) = Some 0 \<and>
   knob_parent (knobs (state_of (addHeader tw7 two_nodes 0 0)) 0) \<noteq> Some 0 \<and>
   fits_int32 (node_x (nodes Integer_node 0)) \<and>
   fits_int32 (node_y (nodes Integer_node 0)) \<and>
   fits_int32 (node_w (nodes Integer_node 0)) \<and>
   fits_int32 (header_h (headers Integer_node 0)) \<and>
   \<bar>node_margin (nodes (state_of (addHeader tw7 two_nodes 0 0)) 0)\<bar> < 2 ^ 1000 \<and>
   \<bar>children_yOffset (state_of (addHeader tw7 two_nodes 0 0)) 0\<bar> < 2 ^ 1000 \<and>
   addKnob tw7 (state_of (addHeader tw7 two_nodes 0 0)) 0 0 = Inr Integer_node \<and>
   width_fits tw7 Integer_node 0 0 \<and>
   0 \<in> set (knob_children (node_childItems (nodes Integer_node 0)))"
proof -
  have h: "node_header (nodes (state_of (addHeader tw7 two_nodes 0 0)) 0) = Some 0"
    by (simp add: scene_defs)
  have p: "knob_parent (knobs (state_of (addHeader tw7 two_nodes 0 0)) 0) \<noteq> Some 0"
    by (simp add: scene_defs)
  have f: "fits_int32 (node_x (nodes Integer_node 0))"
    "fits_int32 (node_y (nodes Integer_node 0))"
    "fits_int32 (node_w (nodes Integer_node 0))"
    "fits_int32 (header_h (headers Integer_node 0))"
    by (simp_all add: scene_defs)
  have m: "\<bar>node_margin (nodes (state_of (addHeader tw7 two_nodes 0 0)) 0)\<bar> < 2 ^ 1000"
    "\<bar>children_yOffset (state_of (addHeader tw7 two_nodes 0 0)) 0\<bar> < 2 ^ 1000"
    by (simp_all add: scene_defs)
  show ?thesis
    using h p f m
      relayout_width [of tw7 "state_of (addHeader tw7 two_nodes 0 0)" 0 0 0]
    unfolding Integer_node_def [symmetric]
    by blast
qed

text \<open>
  Claim C1 as stated fails. In the \<open>Integer\<close> node (Header \<open>"Int"\<close>, one OutputKnob
  \<open>"value"\<close> of width 10, margin 6, 7 pixels a character) both calls return, the width is
  57, the formula of the claim gives 63, and 57 is below
  \<open>margin + knob.w + margin + labelWidth + margin = 63\<close>.
\<close>

theorem relayout_width_counterexample:
  "raised (addHeader tw7 two_nodes 0 0) = None \<and>
   raised (addKnob tw7 (state_of (addHeader tw7 two_nodes 0 0)) 0 0) = None \<and>
   knob_children (node_childItems (nodes Integer_node 0)) = [0] \<and>
   node_w (nodes Integer_node 0) = 57 \<and>
   spec_width tw7 Integer_node 0 0 = 63 \<and>
   node_w (nodes Integer_node 0) \<noteq> spec_width tw7 Integer_node 0 0 \<and>
   \<not> (node_w (nodes Integer_node 0)
        \<ge> node_margin (nodes Integer_node 0) + sint (knob_w (knobs Integer_node 0))
            + node_margin (nodes Integer_node 0) + tw7 (knob_labelText (knobs Integer_node 0))
            + node_margin (nodes Integer_node 0))"
  by (simp add: spec_width_def scene_defs)

end
